theory Spec2Isabelle
  imports Main
begin

section \<open>The TeamCity client of pkg/buildserver/teamcity/teamcity.go\<close>

text \<open>
  The client is one Go file of eight functions. Each operation builds one HTTP request,
  hands it to the HTTP client and turns the answer into a result. Everything outside the
  file (URL parsing in \<^verbatim>\<open>http.NewRequest\<close>, the network behind
  \<^verbatim>\<open>http.Client.Do\<close>, \<^verbatim>\<open>encoding/json\<close>) is a parameter of the model, collected
  in the record \<open>env\<close>; the operations are functions of it. What an operation does beyond
  returning (the request it hands to the client, the lines it writes to the process-wide
  logger) is returned beside the result as a list of events, in program order.

  Go's \<^verbatim>\<open>int\<close> is modelled as \<open>int\<close>: the file performs no arithmetic on integers, it
  only compares them with 0 and prints them with \<^verbatim>\<open>%d\<close>. \<^verbatim>\<open>string\<close> and \<^verbatim>\<open>[]byte\<close> are both
  byte sequences (\<open>string\<close>); a nil slice is the empty list.
\<close>

subsection \<open>Values of the Go standard library\<close>

type_synonym bytes = string

datatype error = Error string

text \<open>\<^verbatim>\<open>http.Header\<close>: the values in the order they were added, under their keys. Every
  key this file adds is already in canonical form. \<open>Header_Get\<close> returns the first
  value of a key, or the empty string.\<close>

type_synonym http_Header = "(string \<times> string) list"

definition Header_Add :: "http_Header \<Rightarrow> string \<Rightarrow> string \<Rightarrow> http_Header" where
  "Header_Add h k v = h @ [(k, v)]"

definition Header_Get :: "http_Header \<Rightarrow> string \<Rightarrow> string" where
  "Header_Get h k = (case map_of h k of None \<Rightarrow> [] | Some v \<Rightarrow> v)"

record http_Transport =
  Dial_Timeout :: int
  TLSHandshakeTimeout :: int
  InsecureSkipVerify :: bool

record http_Client =
  Timeout :: int
  Transport :: http_Transport

record http_Request =
  Method :: string
  URL :: string
  Header :: http_Header
  Body :: "bytes option"

text \<open>A response as the file reads it: the status code, the headers, and what
  \<^verbatim>\<open>ioutil.ReadAll(resp.Body)\<close> returns, the bytes read and the error if reading failed.\<close>

record http_Response =
  StatusCode :: int
  Header :: http_Header
  Body :: "bytes \<times> error option"

text \<open>\<^verbatim>\<open>strings.TrimPrefix\<close> and \<^verbatim>\<open>strings.HasPrefix\<close>.\<close>

definition HasPrefix :: "string \<Rightarrow> string \<Rightarrow> bool" where
  "HasPrefix s p = (length s \<ge> length p \<and> take (length p) s = p)"

definition TrimPrefix :: "string \<Rightarrow> string \<Rightarrow> string" where
  "TrimPrefix s p = (if HasPrefix s p then drop (length p) s else s)"

text \<open>The verbs of \<^verbatim>\<open>fmt.Sprintf\<close> the file uses: \<^verbatim>\<open>%d\<close> on an integer and \<^verbatim>\<open>%t\<close> on a
  boolean (\<^verbatim>\<open>%s\<close> on a string is the string).\<close>

definition digit :: "nat \<Rightarrow> char" where
  "digit n = ''0123456789'' ! n"

fun digits :: "nat \<Rightarrow> string" where
  "digits n = (if n < 10 then [digit n] else digits (n div 10) @ [digit (n mod 10)])"

declare digits.simps [simp del]

definition fmt_d :: "int \<Rightarrow> string" where
  "fmt_d i = (if i < 0 then CHR ''-'' # digits (nat (- i)) else digits (nat i))"

definition fmt_t :: "bool \<Rightarrow> string" where
  "fmt_t b = (if b then ''true'' else ''false'')"

text \<open>A Go map, as a \<^verbatim>\<open>range\<close> loop sees it: its entries in the order in which this
  run of the loop visits them. The order is the runtime's choice; the keys of a map are
  distinct.\<close>

type_synonym ('k, 'v) gomap = "('k \<times> 'v) list"

definition gomap_ok :: "('k, 'v) gomap \<Rightarrow> bool" where
  "gomap_ok m = distinct (map fst m)"

subsection \<open>The payload types\<close>

text \<open>
  The struct declarations are in a file of the package that is not part of the sources
  at hand. The records below have the fields that teamcity.go reads and writes, under the
  names it uses; any further field of a struct keeps its zero value throughout this file
  and is left out. \<open>TCBuildProperty\<close> is built positionally
  (\<^verbatim>\<open>TCBuildProperty{k, v}\<close>): its two fields are the name and the value of the property.
\<close>

record TCBuildType =
  ID :: string

record TCBuildComment =
  Text :: string

record TCBuildProperty =
  Name :: string
  Value :: string

record TCBuildProperties =
  Property :: "TCBuildProperty list"

record TCBuildDetails =
  ID :: int
  BuildTypeID :: string

record TCBuildSnapshotDependencies =
  Builds :: "TCBuildDetails list"

record TCBuildPayload =
  BuildType :: TCBuildType
  Comment :: TCBuildComment
  Properties :: TCBuildProperties
  Personal :: string
  BranchName :: string
  SnapshotDependencies :: "TCBuildSnapshotDependencies option"
  ArtifactDependencies :: "TCBuildSnapshotDependencies option"

record TCBuildStopPayload =
  Comment :: string
  ReaddIntoQueue :: string

record TCQueryParams =
  BuildTypeID :: string
  Branch :: string
  User :: string
  Count :: int
  Start :: int
  LookupLimit :: int
  Running :: bool
  Cancelled :: bool

subsection \<open>The environment and the events\<close>

text \<open>
  \<open>url_Parse\<close> is the one way \<^verbatim>\<open>http.NewRequest\<close> fails here (the methods GET and POST
  are valid and the context is the background context). \<open>json_Unmarshal\<close> takes the
  destination as it is before the call and returns it as it is after, with the error;
  \<open>'d\<close> is the type behind the \<^verbatim>\<open>interface{}\<close> destination of \<open>GetBuild\<close>.
\<close>

record 'd env =
  url_Parse :: "string \<Rightarrow> error option"
  client_Do :: "http_Client \<Rightarrow> http_Request \<Rightarrow> error + http_Response"
  json_Marshal_build :: "TCBuildPayload \<Rightarrow> error + bytes"
  json_Marshal_stop :: "TCBuildStopPayload \<Rightarrow> error + bytes"
  json_Unmarshal_details :: "bytes \<Rightarrow> TCBuildDetails \<Rightarrow> TCBuildDetails \<times> error option"
  json_Unmarshal_builds ::
    "bytes \<Rightarrow> TCBuildSnapshotDependencies \<Rightarrow> TCBuildSnapshotDependencies \<times> error option"
  json_Unmarshal :: "bytes \<Rightarrow> 'd \<Rightarrow> 'd \<times> error option"

datatype event =
  Sent http_Request
| Println_error error
| Println_bytes bytes
| Printf_bytes bytes
| Println_details TCBuildDetails

definition NewRequest :: "'d env \<Rightarrow> string \<Rightarrow> string \<Rightarrow> bytes option \<Rightarrow> error + http_Request" where
  "NewRequest env method url body =
     (case url_Parse env url of
        Some err \<Rightarrow> Inl err
      | None \<Rightarrow> Inr \<lparr>Method = method, URL = url, http_Request.Header = [],
                     http_Request.Body = body\<rparr>)"

subsection \<open>The client\<close>

record TCClient =
  client :: http_Client
  token :: string
  serverURL :: string

definition NewTeamcityClient ::
  "int \<Rightarrow> int \<Rightarrow> int \<Rightarrow> string \<Rightarrow> string \<Rightarrow> bool \<Rightarrow> TCClient" where
  "NewTeamcityClient requestTimeout dialTimeout tlsHandshakeTimeout serverURL' token' insecure =
     (let tr = \<lparr>Dial_Timeout = dialTimeout, TLSHandshakeTimeout = tlsHandshakeTimeout,
                InsecureSkipVerify = insecure\<rparr>;
          client' = \<lparr>Timeout = requestTimeout, Transport = tr\<rparr>
      in \<lparr>client = client', token = TrimPrefix token' ''Bearer '', serverURL = serverURL'\<rparr>)"

definition setAuthorizationHeader :: "TCClient \<Rightarrow> http_Header \<Rightarrow> http_Header" where
  "setAuthorizationHeader t headers = Header_Add headers ''Authorization'' (''Bearer '' @ token t)"

text \<open>The three header lines every operation runs on its fresh request.\<close>

definition set_headers :: "TCClient \<Rightarrow> http_Request \<Rightarrow> http_Request" where
  "set_headers t req =
     (let req = req\<lparr>http_Request.Header := setAuthorizationHeader t (http_Request.Header req)\<rparr>;
          req = req\<lparr>http_Request.Header :=
                  Header_Add (http_Request.Header req) ''Accept'' ''application/json''\<rparr>;
          req = req\<lparr>http_Request.Header :=
                  Header_Add (http_Request.Header req) ''Content-Type'' ''application/json''\<rparr>
      in req)"

subsection \<open>GetBuild\<close>

text \<open>The result is the destination after the call and the returned error.\<close>

definition GetBuild ::
  "'d env \<Rightarrow> TCClient \<Rightarrow> int \<Rightarrow> 'd \<Rightarrow> ('d \<times> error option) \<times> event list" where
  "GetBuild env t id' buildDetails =
     (case NewRequest env ''GET'' (serverURL t @ ''/app/rest/builds/id:'' @ fmt_d id') None of
        Inl err \<Rightarrow> ((buildDetails, Some err), [])
      | Inr req0 \<Rightarrow>
          let req = set_headers t req0 in
          (case client_Do env (client t) req of
             Inl err \<Rightarrow> ((buildDetails, Some err), [Sent req, Println_error err])
           | Inr resp \<Rightarrow>
               (case http_Response.Body resp of
                  (body, Some err) \<Rightarrow> ((buildDetails, Some err), [Sent req, Println_error err])
                | (body, None) \<Rightarrow>
                    (case json_Unmarshal env body buildDetails of
                       (buildDetails', Some err) \<Rightarrow>
                         ((buildDetails', Some err), [Sent req, Println_error err])
                     | (buildDetails', None) \<Rightarrow> ((buildDetails', None), [Sent req])))))"

subsection \<open>StartBuild\<close>

text \<open>The two \<^verbatim>\<open>range\<close> loops over the parameters and over a dependency map, each
  appending one element per entry visited.\<close>

fun range_params :: "(string, string) gomap \<Rightarrow> TCBuildProperty list \<Rightarrow> TCBuildProperty list" where
  "range_params [] property = property"
| "range_params ((k, v) # rest) property =
     range_params rest (property @ [\<lparr>Name = k, Value = v\<rparr>])"

fun range_deps :: "(string, int) gomap \<Rightarrow> TCBuildDetails list \<Rightarrow> TCBuildDetails list" where
  "range_deps [] builds = builds"
| "range_deps ((k, v) # rest) builds =
     range_deps rest (builds @ [\<lparr>ID = v, TCBuildDetails.BuildTypeID = k\<rparr>])"

text \<open>Lines 104 to 146 of the function: the payload, up to the call of
  \<^verbatim>\<open>json.Marshal\<close>.\<close>

definition StartBuild_payload ::
  "string \<Rightarrow> string \<Rightarrow> string \<Rightarrow> (string, string) gomap \<Rightarrow> (string, int) gomap \<Rightarrow>
   (string, int) gomap \<Rightarrow> TCBuildPayload" where
  "StartBuild_payload buildTypeID branch comment params snapshotDependencies artifactDependencies =
     (let payload = \<lparr>BuildType = \<lparr>TCBuildType.ID = buildTypeID\<rparr>,
                      TCBuildPayload.Comment = \<lparr>Text = comment\<rparr>,
                      Properties = \<lparr>Property = []\<rparr>,
                      Personal = ''False'',
                      BranchName = branch,
                      SnapshotDependencies = None,
                      ArtifactDependencies = None\<rparr>;
          payload = payload\<lparr>Properties :=
                      \<lparr>Property = range_params params (Property (Properties payload))\<rparr>\<rparr>;
          snapDeps = \<lparr>Builds = []\<rparr>;
          artfDeps = \<lparr>Builds = []\<rparr>;
          snapDeps = snapDeps\<lparr>Builds := range_deps snapshotDependencies (Builds snapDeps)\<rparr>;
          artfDeps = artfDeps\<lparr>Builds := range_deps artifactDependencies (Builds artfDeps)\<rparr>;
          payload = (if length (Builds snapDeps) > 0
                     then payload\<lparr>SnapshotDependencies := Some snapDeps\<rparr> else payload);
          payload = (if length (Builds artfDeps) > 0
                     then payload\<lparr>ArtifactDependencies := Some artfDeps\<rparr> else payload)
      in payload)"

text \<open>The zero value of \<^verbatim>\<open>var buildDetails TCBuildDetails\<close>.\<close>

definition zero_TCBuildDetails :: TCBuildDetails where
  "zero_TCBuildDetails = \<lparr>ID = 0, TCBuildDetails.BuildTypeID = []\<rparr>"

definition StartBuild ::
  "'d env \<Rightarrow> TCClient \<Rightarrow> string \<Rightarrow> string \<Rightarrow> string \<Rightarrow> (string, string) gomap \<Rightarrow>
   (string, int) gomap \<Rightarrow> (string, int) gomap \<Rightarrow> (int \<times> error option) \<times> event list" where
  "StartBuild env t buildTypeID branch comment params snapshotDependencies artifactDependencies =
     (let buildDetails = zero_TCBuildDetails;
          payload = StartBuild_payload buildTypeID branch comment params
                      snapshotDependencies artifactDependencies
      in case json_Marshal_build env payload of
           Inl err \<Rightarrow> ((- 1, Some err), [Println_error err])
         | Inr requestPayload \<Rightarrow>
             (case NewRequest env ''POST'' (serverURL t @ ''/app/rest/buildQueue'')
                     (Some requestPayload) of
                Inl err \<Rightarrow> ((- 1, Some err), [Println_bytes requestPayload])
              | Inr req0 \<Rightarrow>
                  let req = set_headers t req0 in
                  (case client_Do env (client t) req of
                     Inl err \<Rightarrow>
                       ((- 1, Some err), [Println_bytes requestPayload, Sent req, Println_error err])
                   | Inr resp \<Rightarrow>
                       (case http_Response.Body resp of
                          (body, Some err) \<Rightarrow>
                            ((- 1, Some err),
                             [Println_bytes requestPayload, Sent req, Println_error err])
                        | (body, None) \<Rightarrow>
                            (case json_Unmarshal_details env body buildDetails of
                               (buildDetails', Some err) \<Rightarrow>
                                 ((- 1, Some err),
                                  [Println_bytes requestPayload, Sent req, Printf_bytes body,
                                   Println_error err])
                             | (buildDetails', None) \<Rightarrow>
                                 ((ID buildDetails', None),
                                  [Println_bytes requestPayload, Sent req, Printf_bytes body,
                                   Println_details buildDetails']))))))"

subsection \<open>CancelQueuedBuild and StopBuild\<close>

definition CancelQueuedBuild ::
  "'d env \<Rightarrow> TCClient \<Rightarrow> int \<Rightarrow> string \<Rightarrow> error option \<times> event list" where
  "CancelQueuedBuild env t id' comment =
     (let payload = \<lparr>TCBuildStopPayload.Comment = comment, ReaddIntoQueue = ''false''\<rparr>
      in case json_Marshal_stop env payload of
           Inl err \<Rightarrow> (Some err, [Println_error err])
         | Inr requestPayload \<Rightarrow>
             (case NewRequest env ''POST'' (serverURL t @ ''/app/rest/buildQueue/'' @ fmt_d id')
                     (Some requestPayload) of
                Inl err \<Rightarrow> (Some err, [Println_bytes requestPayload])
              | Inr req0 \<Rightarrow>
                  let req = set_headers t req0 in
                  (case client_Do env (client t) req of
                     Inl err \<Rightarrow>
                       (Some err, [Println_bytes requestPayload, Sent req, Println_error err])
                   | Inr resp \<Rightarrow>
                       (case http_Response.Body resp of
                          (body, Some err) \<Rightarrow>
                            (Some err, [Println_bytes requestPayload, Sent req, Println_error err])
                        | (body, None) \<Rightarrow>
                            (None, [Println_bytes requestPayload, Sent req, Println_bytes body])))))"

definition StopBuild ::
  "'d env \<Rightarrow> TCClient \<Rightarrow> int \<Rightarrow> string \<Rightarrow> error option \<times> event list" where
  "StopBuild env t id' comment =
     (let payload = \<lparr>TCBuildStopPayload.Comment = comment, ReaddIntoQueue = ''false''\<rparr>
      in case json_Marshal_stop env payload of
           Inl err \<Rightarrow> (Some err, [Println_error err])
         | Inr requestPayload \<Rightarrow>
             (case NewRequest env ''POST'' (serverURL t @ ''/app/rest/builds/'' @ fmt_d id')
                     (Some requestPayload) of
                Inl err \<Rightarrow> (Some err, [Println_bytes requestPayload])
              | Inr req0 \<Rightarrow>
                  let req = set_headers t req0 in
                  (case client_Do env (client t) req of
                     Inl err \<Rightarrow>
                       (Some err, [Println_bytes requestPayload, Sent req, Println_error err])
                   | Inr resp \<Rightarrow>
                       (case http_Response.Body resp of
                          (body, Some err) \<Rightarrow>
                            (Some err, [Println_bytes requestPayload, Sent req, Println_error err])
                        | (body, None) \<Rightarrow>
                            (None, [Println_bytes requestPayload, Sent req, Println_bytes body])))))"

subsection \<open>GetArtifactTextFile\<close>

text \<open>The result is the content, the content type and the error.\<close>

definition GetArtifactTextFile ::
  "'d env \<Rightarrow> TCClient \<Rightarrow> string \<Rightarrow> int \<Rightarrow> (bytes \<times> string \<times> error option) \<times> event list" where
  "GetArtifactTextFile env t path id' =
     (let fileContent = []
      in case NewRequest env ''GET''
                (serverURL t @ ''/app/rest/builds/id:'' @ fmt_d id' @ ''/artifacts/content/'' @ path)
                None of
           Inl err \<Rightarrow> (([], [], Some err), [])
         | Inr req0 \<Rightarrow>
             let req = set_headers t req0 in
             (case client_Do env (client t) req of
                Inl err \<Rightarrow> ((fileContent, [], Some err), [Sent req, Println_error err])
              | Inr resp \<Rightarrow>
                  (case http_Response.Body resp of
                     (fileContent', Some err) \<Rightarrow>
                       ((fileContent', [], Some err), [Sent req, Println_error err])
                   | (fileContent', None) \<Rightarrow>
                       ((fileContent', Header_Get (http_Response.Header resp) ''Content-Type'', None),
                        [Sent req]))))"

subsection \<open>GetAllBuilds\<close>

text \<open>Lines 331 to 363 of the function: the request URL, one conditional append per
  filter.\<close>

definition GetAllBuilds_requestURL :: "TCClient \<Rightarrow> TCQueryParams \<Rightarrow> string" where
  "GetAllBuilds_requestURL t params =
     (let requestURL = serverURL t @ ''/app/rest/builds/?locator='';
          requestURL = (if BuildTypeID params \<noteq> []
                        then requestURL @ (''buildType:(id:'' @ BuildTypeID params @ ''),'')
                        else requestURL);
          requestURL = (if Branch params \<noteq> []
                        then requestURL @ (''branch:(name:'' @ Branch params @ ''),'')
                        else requestURL);
          requestURL = (if User params \<noteq> []
                        then requestURL @ (''user:'' @ User params @ '','')
                        else requestURL);
          requestURL = (if Count params > 0
                        then requestURL @ (''count:'' @ fmt_d (Count params) @ '','')
                        else requestURL);
          requestURL = (if Start params > 0
                        then requestURL @ (''start:'' @ fmt_d (Start params) @ '','')
                        else requestURL);
          requestURL = (if LookupLimit params > 0
                        then requestURL @ (''lookupLimit:'' @ fmt_d (LookupLimit params) @ '','')
                        else requestURL);
          requestURL = (if Running params
                        then requestURL @ (''running:'' @ fmt_t (Running params) @ '','')
                        else requestURL);
          requestURL = (if Cancelled params
                        then requestURL @ (''cancelled:'' @ fmt_t (Cancelled params) @ '','')
                        else requestURL)
      in requestURL)"

text \<open>The zero value of the named result \<^verbatim>\<open>builds\<close>.\<close>

definition zero_TCBuildSnapshotDependencies :: TCBuildSnapshotDependencies where
  "zero_TCBuildSnapshotDependencies = \<lparr>Builds = []\<rparr>"

definition GetAllBuilds ::
  "'d env \<Rightarrow> TCClient \<Rightarrow> TCQueryParams \<Rightarrow>
   (TCBuildSnapshotDependencies \<times> error option) \<times> event list" where
  "GetAllBuilds env t params =
     (let builds = zero_TCBuildSnapshotDependencies;
          requestURL = GetAllBuilds_requestURL t params
      in case NewRequest env ''GET'' requestURL None of
           Inl err \<Rightarrow> ((builds, Some err), [])
         | Inr req0 \<Rightarrow>
             let req = set_headers t req0 in
             (case client_Do env (client t) req of
                Inl err \<Rightarrow> ((builds, Some err), [Sent req])
              | Inr resp \<Rightarrow>
                  (case http_Response.Body resp of
                     (respBody, Some err) \<Rightarrow> ((builds, Some err), [Sent req])
                   | (respBody, None) \<Rightarrow>
                       (case json_Unmarshal_builds env respBody builds of
                          (builds', Some err) \<Rightarrow> ((builds', Some err), [Sent req])
                        | (builds', None) \<Rightarrow> ((builds', None), [Sent req])))))"

section \<open>Notions used to state the properties\<close>

text \<open>The request the interface table promises for a method, a URL and a body: the
  three headers every request carries, in the order they are added.\<close>

definition json_request :: "TCClient \<Rightarrow> string \<Rightarrow> string \<Rightarrow> bytes option \<Rightarrow> http_Request" where
  "json_request t method url body =
     \<lparr>Method = method, URL = url,
      http_Request.Header = [(''Authorization'', ''Bearer '' @ token t),
                             (''Accept'', ''application/json''),
                             (''Content-Type'', ''application/json'')],
      http_Request.Body = body\<rparr>"

text \<open>The requests among the events of a call, in order.\<close>

fun sent :: "event list \<Rightarrow> http_Request list" where
  "sent [] = []"
| "sent (Sent req # evs) = req # sent evs"
| "sent (_ # evs) = sent evs"

text \<open>The environment whose every response has its status code rewritten by \<open>f\<close>.\<close>

definition with_status :: "(int \<Rightarrow> int) \<Rightarrow> 'd env \<Rightarrow> 'd env" where
  "with_status f env =
     env\<lparr>client_Do := \<lambda>c req.
           (case client_Do env c req of
              Inl err \<Rightarrow> Inl err
            | Inr resp \<Rightarrow> Inr (resp\<lparr>StatusCode := f (StatusCode resp)\<rparr>))\<rparr>"

text \<open>A call of any of the six operations, and the events it produces.\<close>

datatype 'd call =
  Call_GetBuild int 'd
| Call_StartBuild string string string "(string, string) gomap" "(string, int) gomap"
    "(string, int) gomap"
| Call_CancelQueuedBuild int string
| Call_StopBuild int string
| Call_GetArtifactTextFile string int
| Call_GetAllBuilds TCQueryParams

fun events :: "'d env \<Rightarrow> TCClient \<Rightarrow> 'd call \<Rightarrow> event list" where
  "events env t (Call_GetBuild i d) = snd (GetBuild env t i d)"
| "events env t (Call_StartBuild b br c ps sd ad) = snd (StartBuild env t b br c ps sd ad)"
| "events env t (Call_CancelQueuedBuild i c) = snd (CancelQueuedBuild env t i c)"
| "events env t (Call_StopBuild i c) = snd (StopBuild env t i c)"
| "events env t (Call_GetArtifactTextFile p i) = snd (GetArtifactTextFile env t p i)"
| "events env t (Call_GetAllBuilds ps) = snd (GetAllBuilds env t ps)"

text \<open>A concrete environment and client for the instances below: every URL parses,
  the server answers every request with status 404 and a readable body, and the body
  decodes to build 42.\<close>

definition env_demo :: "TCBuildDetails env" where
  "env_demo =
     \<lparr>url_Parse = (\<lambda>u. None),
      client_Do = (\<lambda>c req. Inr \<lparr>StatusCode = 404,
                                 http_Response.Header = [(''Content-Type'', ''text/plain'')],
                                 http_Response.Body = (''{id:42}'', None)\<rparr>),
      json_Marshal_build = (\<lambda>p. Inr ''build''),
      json_Marshal_stop = (\<lambda>p. Inr ''stop''),
      json_Unmarshal_details = (\<lambda>b d. (d\<lparr>ID := 42\<rparr>, None)),
      json_Unmarshal_builds = (\<lambda>b d. (d, None)),
      json_Unmarshal = (\<lambda>b d. (d\<lparr>ID := 42\<rparr>, None))\<rparr>"

definition client_demo :: TCClient where
  "client_demo = NewTeamcityClient 30 10 10 ''https://ci'' ''abc123'' False"

text \<open>The filters of a query that are present, as pairs of a key and a value, in the
  order build type, branch, user, count, start, lookup limit, running, cancelled; the
  fragment of a pair; and the locator, the fragments one after the other.\<close>

definition present_filters :: "TCQueryParams \<Rightarrow> (string \<times> string) list" where
  "present_filters p =
     (if BuildTypeID p \<noteq> [] then [(''buildType'', ''(id:'' @ BuildTypeID p @ '')'')] else []) @
     (if Branch p \<noteq> [] then [(''branch'', ''(name:'' @ Branch p @ '')'')] else []) @
     (if User p \<noteq> [] then [(''user'', User p)] else []) @
     (if Count p > 0 then [(''count'', fmt_d (Count p))] else []) @
     (if Start p > 0 then [(''start'', fmt_d (Start p))] else []) @
     (if LookupLimit p > 0 then [(''lookupLimit'', fmt_d (LookupLimit p))] else []) @
     (if Running p then [(''running'', ''true'')] else []) @
     (if Cancelled p then [(''cancelled'', ''true'')] else [])"

definition fragment :: "string \<times> string \<Rightarrow> string" where
  "fragment kv = fst kv @ '':'' @ snd kv @ '',''"

definition locator :: "TCQueryParams \<Rightarrow> string" where
  "locator p = concat (map fragment (present_filters p))"

text \<open>The zero value of \<^verbatim>\<open>TCQueryParams\<close>.\<close>

definition no_filters :: TCQueryParams where
  "no_filters = \<lparr>BuildTypeID = [], Branch = [], User = [], Count = 0, Start = 0,
                  LookupLimit = 0, Running = False, Cancelled = False\<rparr>"

text \<open>The environment of the instances with the network down: every call of the client
  fails.\<close>

definition env_down :: "TCBuildDetails env" where
  "env_down = env_demo\<lparr>client_Do := \<lambda>c req. Inl (Error ''timeout'')\<rparr>"

text \<open>The environment whose every response has its status code, its headers and the
  bytes read from its body rewritten by \<open>f\<close>, \<open>h\<close> and \<open>g\<close>; whether the network call and
  the reading of the body succeed is left as it is.\<close>

definition with_answer ::
  "(int \<Rightarrow> int) \<Rightarrow> (http_Header \<Rightarrow> http_Header) \<Rightarrow> (bytes \<Rightarrow> bytes) \<Rightarrow> 'd env \<Rightarrow> 'd env" where
  "with_answer f h g env =
     env\<lparr>client_Do := \<lambda>c req.
           (case client_Do env c req of
              Inl err \<Rightarrow> Inl err
            | Inr resp \<Rightarrow>
                Inr \<lparr>StatusCode = f (StatusCode resp),
                     http_Response.Header = h (http_Response.Header resp),
                     http_Response.Body =
                       (g (fst (http_Response.Body resp)), snd (http_Response.Body resp))\<rparr>)\<rparr>"

text \<open>Retargeting: a request to the URL \<open>u\<close> becomes the same request to the URL \<open>u'\<close>,
  in a request, in an event, and in the environment that treats \<open>u\<close> as \<open>u'\<close>.\<close>

definition retarget :: "string \<Rightarrow> string \<Rightarrow> http_Request \<Rightarrow> http_Request" where
  "retarget u u' req = (if URL req = u then req\<lparr>URL := u'\<rparr> else req)"

fun retarget_event :: "string \<Rightarrow> string \<Rightarrow> event \<Rightarrow> event" where
  "retarget_event u u' (Sent req) = Sent (retarget u u' req)"
| "retarget_event u u' ev = ev"

definition env_retarget :: "string \<Rightarrow> string \<Rightarrow> 'd env \<Rightarrow> 'd env" where
  "env_retarget u u' env =
     env\<lparr>url_Parse := \<lambda>x. url_Parse env (if x = u then u' else x),
         client_Do := \<lambda>c req. client_Do env c (retarget u u' req)\<rparr>"

section \<open>Requests and headers\<close>

lemma set_headers_NewRequest:
  "NewRequest env method url body = Inr req0 \<Longrightarrow> set_headers t req0 = json_request t method url body"
  by (auto simp: NewRequest_def set_headers_def json_request_def setAuthorizationHeader_def
      Header_Add_def split: option.splits)

lemma sent_GetBuild:
  "req \<in> set (sent (snd (GetBuild env t i d))) \<Longrightarrow>
   req = json_request t ''GET'' (serverURL t @ ''/app/rest/builds/id:'' @ fmt_d i) None"
  by (auto simp: GetBuild_def Let_def set_headers_NewRequest split: sum.splits option.splits prod.splits)

lemma sent_StartBuild:
  "req \<in> set (sent (snd (StartBuild env t b br c ps sd ad))) \<Longrightarrow>
   \<exists>bs. req = json_request t ''POST'' (serverURL t @ ''/app/rest/buildQueue'') (Some bs)"
  by (auto simp: StartBuild_def Let_def set_headers_NewRequest split: sum.splits option.splits prod.splits)

lemma sent_CancelQueuedBuild:
  "req \<in> set (sent (snd (CancelQueuedBuild env t i c))) \<Longrightarrow>
   \<exists>bs. req = json_request t ''POST'' (serverURL t @ ''/app/rest/buildQueue/'' @ fmt_d i) (Some bs)"
  by (auto simp: CancelQueuedBuild_def Let_def set_headers_NewRequest split: sum.splits option.splits prod.splits)

lemma sent_StopBuild:
  "req \<in> set (sent (snd (StopBuild env t i c))) \<Longrightarrow>
   \<exists>bs. req = json_request t ''POST'' (serverURL t @ ''/app/rest/builds/'' @ fmt_d i) (Some bs)"
  by (auto simp: StopBuild_def Let_def set_headers_NewRequest split: sum.splits option.splits prod.splits)

lemma sent_GetArtifactTextFile:
  "req \<in> set (sent (snd (GetArtifactTextFile env t p i))) \<Longrightarrow>
   req = json_request t ''GET''
           (serverURL t @ ''/app/rest/builds/id:'' @ fmt_d i @ ''/artifacts/content/'' @ p) None"
  by (auto simp: GetArtifactTextFile_def Let_def set_headers_NewRequest split: sum.splits option.splits prod.splits)

lemma sent_GetAllBuilds:
  "req \<in> set (sent (snd (GetAllBuilds env t ps))) \<Longrightarrow>
   req = json_request t ''GET'' (GetAllBuilds_requestURL t ps) None"
  by (auto simp: GetAllBuilds_def Let_def set_headers_NewRequest split: sum.splits option.splits prod.splits)

lemma sent_events_Header:
  assumes "req \<in> set (sent (events env t call))"
  shows "http_Request.Header req =
           [(''Authorization'', ''Bearer '' @ token t), (''Accept'', ''application/json''),
            (''Content-Type'', ''application/json'')]"
proof (cases call)
  case (Call_GetBuild i d)
  with assms sent_GetBuild [of req env t i d] show ?thesis by (simp add: json_request_def)
next
  case (Call_StartBuild b br c ps sd ad)
  with assms sent_StartBuild [of req env t b br c ps sd ad] show ?thesis
    by (auto simp: json_request_def)
next
  case (Call_CancelQueuedBuild i c)
  with assms sent_CancelQueuedBuild [of req env t i c] show ?thesis
    by (auto simp: json_request_def)
next
  case (Call_StopBuild i c)
  with assms sent_StopBuild [of req env t i c] show ?thesis by (auto simp: json_request_def)
next
  case (Call_GetArtifactTextFile p i)
  with assms sent_GetArtifactTextFile [of req env t p i] show ?thesis
    by (simp add: json_request_def)
next
  case (Call_GetAllBuilds ps)
  with assms sent_GetAllBuilds [of req env t ps] show ?thesis by (simp add: json_request_def)
qed

lemma token_NewTeamcityClient:
  "token (NewTeamcityClient rt dt ht url tok ins) = TrimPrefix tok ''Bearer ''"
  by (simp add: NewTeamcityClient_def)

lemma TrimPrefix_append: "TrimPrefix (p @ s) p = s"
  by (simp add: TrimPrefix_def HasPrefix_def)

lemma TrimPrefix_other: "\<not> HasPrefix s p \<Longrightarrow> TrimPrefix s p = s"
  by (simp add: TrimPrefix_def)

section \<open>The bearer token (C2)\<close>

text \<open>
  Claim C2, as amended. The constructor strips one leading \<^verbatim>\<open>Bearer \<close> from the token and
  \<open>setAuthorizationHeader\<close> puts one in front again. So every request of a client built
  from the token \<open>tok\<close> carries exactly the three headers, with
  \<^verbatim>\<open>Authorization: Bearer \<close> followed by \<open>tok\<close> less one leading \<^verbatim>\<open>Bearer \<close>; every request of
  a client built from \<^verbatim>\<open>Bearer \<close> followed by \<open>tok\<close> carries \<^verbatim>\<open>Authorization: Bearer \<close>
  followed by \<open>tok\<close> itself; and when \<open>tok\<close> does not begin with \<^verbatim>\<open>Bearer \<close> the two
  clients are equal, hence so are their headers on every request.
\<close>

theorem bearer_prefix_single_strip:
  "(\<forall>req \<in> set (sent (events env (NewTeamcityClient rt dt ht url tok ins) call)).
      http_Request.Header req =
        [(''Authorization'', ''Bearer '' @ TrimPrefix tok ''Bearer ''),
         (''Accept'', ''application/json''), (''Content-Type'', ''application/json'')]) \<and>
   (\<forall>req \<in> set (sent (events env (NewTeamcityClient rt dt ht url (''Bearer '' @ tok) ins) call)).
      http_Request.Header req =
        [(''Authorization'', ''Bearer '' @ tok),
         (''Accept'', ''application/json''), (''Content-Type'', ''application/json'')]) \<and>
   (\<not> HasPrefix tok ''Bearer '' \<longrightarrow>
      NewTeamcityClient rt dt ht url (''Bearer '' @ tok) ins = NewTeamcityClient rt dt ht url tok ins \<and>
      setAuthorizationHeader (NewTeamcityClient rt dt ht url tok ins) [] =
        [(''Authorization'', ''Bearer '' @ tok)])"
proof (intro conjI ballI impI)
  fix req
  assume "req \<in> set (sent (events env (NewTeamcityClient rt dt ht url tok ins) call))"
  from sent_events_Header [OF this] show "http_Request.Header req =
        [(''Authorization'', ''Bearer '' @ TrimPrefix tok ''Bearer ''),
         (''Accept'', ''application/json''), (''Content-Type'', ''application/json'')]"
    by (simp add: token_NewTeamcityClient)
next
  fix req
  assume "req \<in> set (sent (events env (NewTeamcityClient rt dt ht url (''Bearer '' @ tok) ins) call))"
  from sent_events_Header [OF this] show "http_Request.Header req =
        [(''Authorization'', ''Bearer '' @ tok),
         (''Accept'', ''application/json''), (''Content-Type'', ''application/json'')]"
    by (simp only: token_NewTeamcityClient TrimPrefix_append)
next
  assume "\<not> HasPrefix tok ''Bearer ''"
  then have "TrimPrefix tok ''Bearer '' = tok"
    by (rule TrimPrefix_other)
  then show "NewTeamcityClient rt dt ht url (''Bearer '' @ tok) ins = NewTeamcityClient rt dt ht url tok ins"
    by (simp only: NewTeamcityClient_def TrimPrefix_append)
next
  assume "\<not> HasPrefix tok ''Bearer ''"
  then show "setAuthorizationHeader (NewTeamcityClient rt dt ht url tok ins) [] =
        [(''Authorization'', ''Bearer '' @ tok)]"
    by (simp add: setAuthorizationHeader_def Header_Add_def token_NewTeamcityClient TrimPrefix_def)
qed

text \<open>An instance: the raw token \<^verbatim>\<open>abc123\<close>, on the request of a \<open>StopBuild\<close> call.\<close>

theorem bearer_prefix_single_strip_witness:
  "\<not> HasPrefix ''abc123'' ''Bearer '' \<and>
   map http_Request.Header
     (sent (events env_demo (NewTeamcityClient 30 10 10 ''https://ci'' ''abc123'' False)
              (Call_StopBuild 7 ''stop''))) =
     [[(''Authorization'', ''Bearer abc123''), (''Accept'', ''application/json''),
       (''Content-Type'', ''application/json'')]] \<and>
   map http_Request.Header
     (sent (events env_demo
              (NewTeamcityClient 30 10 10 ''https://ci'' (''Bearer '' @ ''abc123'') False)
              (Call_StopBuild 7 ''stop''))) =
     [[(''Authorization'', ''Bearer abc123''), (''Accept'', ''application/json''),
       (''Content-Type'', ''application/json'')]] \<and>
   NewTeamcityClient 30 10 10 ''https://ci'' (''Bearer '' @ ''abc123'') False =
     NewTeamcityClient 30 10 10 ''https://ci'' ''abc123'' False \<and>
   setAuthorizationHeader (NewTeamcityClient 30 10 10 ''https://ci'' ''abc123'' False) [] =
     [(''Authorization'', ''Bearer abc123'')]"
proof -
  have h: "\<not> HasPrefix ''abc123'' ''Bearer ''"
    by (simp add: HasPrefix_def)
  have s1: "sent (events env_demo (NewTeamcityClient 30 10 10 ''https://ci'' ''abc123'' False)
           (Call_StopBuild 7 ''stop'')) =
     [set_headers (NewTeamcityClient 30 10 10 ''https://ci'' ''abc123'' False)
        \<lparr>Method = ''POST'', URL = ''https://ci/app/rest/builds/7'', http_Request.Header = [],
         http_Request.Body = Some ''stop''\<rparr>]"
    by (simp add: env_demo_def StopBuild_def NewRequest_def NewTeamcityClient_def fmt_d_def
        digits.simps digit_def)
  have s2: "sent (events env_demo
              (NewTeamcityClient 30 10 10 ''https://ci'' (''Bearer '' @ ''abc123'') False)
              (Call_StopBuild 7 ''stop'')) =
     [set_headers (NewTeamcityClient 30 10 10 ''https://ci'' (''Bearer '' @ ''abc123'') False)
        \<lparr>Method = ''POST'', URL = ''https://ci/app/rest/builds/7'', http_Request.Header = [],
         http_Request.Body = Some ''stop''\<rparr>]"
    by (simp add: env_demo_def StopBuild_def NewRequest_def NewTeamcityClient_def fmt_d_def
        digits.simps digit_def)
  note w = bearer_prefix_single_strip
    [of env_demo 30 10 10 "''https://ci''" "''abc123''" False "Call_StopBuild 7 ''stop''"]
  from w have a: "\<forall>req \<in> set (sent (events env_demo
        (NewTeamcityClient 30 10 10 ''https://ci'' ''abc123'' False) (Call_StopBuild 7 ''stop''))).
      http_Request.Header req =
        [(''Authorization'', ''Bearer '' @ TrimPrefix ''abc123'' ''Bearer ''),
         (''Accept'', ''application/json''), (''Content-Type'', ''application/json'')]"
    by blast
  from w have b: "\<forall>req \<in> set (sent (events env_demo
        (NewTeamcityClient 30 10 10 ''https://ci'' (''Bearer '' @ ''abc123'') False)
        (Call_StopBuild 7 ''stop''))).
      http_Request.Header req =
        [(''Authorization'', ''Bearer '' @ ''abc123''),
         (''Accept'', ''application/json''), (''Content-Type'', ''application/json'')]"
    by blast
  from w h have c: "NewTeamcityClient 30 10 10 ''https://ci'' (''Bearer '' @ ''abc123'') False =
     NewTeamcityClient 30 10 10 ''https://ci'' ''abc123'' False \<and>
   setAuthorizationHeader (NewTeamcityClient 30 10 10 ''https://ci'' ''abc123'' False) [] =
     [(''Authorization'', ''Bearer '' @ ''abc123'')]"
    by blast
  have t: "TrimPrefix ''abc123'' ''Bearer '' = ''abc123''"
    by (simp add: TrimPrefix_def HasPrefix_def)
  from a have a': "map http_Request.Header
     (sent (events env_demo (NewTeamcityClient 30 10 10 ''https://ci'' ''abc123'' False)
              (Call_StopBuild 7 ''stop''))) =
     [[(''Authorization'', ''Bearer abc123''), (''Accept'', ''application/json''),
       (''Content-Type'', ''application/json'')]]"
    unfolding s1 t by simp
  from b have b': "map http_Request.Header
     (sent (events env_demo
              (NewTeamcityClient 30 10 10 ''https://ci'' (''Bearer '' @ ''abc123'') False)
              (Call_StopBuild 7 ''stop''))) =
     [[(''Authorization'', ''Bearer abc123''), (''Accept'', ''application/json''),
       (''Content-Type'', ''application/json'')]]"
    unfolding s2 by simp
  from h a' b' c show ?thesis by simp
qed

text \<open>
  The claim as it is written fails for a token that itself begins with \<^verbatim>\<open>Bearer \<close>: only
  one prefix is stripped, so the token \<^verbatim>\<open>Bearer abc\<close> and the same token with another
  \<^verbatim>\<open>Bearer \<close> in front give different headers.
\<close>

theorem bearer_prefix_counterexample:
  "setAuthorizationHeader
     (NewTeamcityClient 30 10 10 ''https://ci'' ''Bearer abc'' False) [] =
     [(''Authorization'', ''Bearer abc'')] \<and>
   setAuthorizationHeader
     (NewTeamcityClient 30 10 10 ''https://ci'' (''Bearer '' @ ''Bearer abc'') False) [] =
     [(''Authorization'', ''Bearer Bearer abc'')] \<and>
   sent (events env_demo (NewTeamcityClient 30 10 10 ''https://ci'' ''Bearer abc'' False)
           (Call_StopBuild 7 ''stop'')) \<noteq>
   sent (events env_demo
           (NewTeamcityClient 30 10 10 ''https://ci'' (''Bearer '' @ ''Bearer abc'') False)
           (Call_StopBuild 7 ''stop''))"
  by (simp add: env_demo_def NewTeamcityClient_def StopBuild_def NewRequest_def set_headers_def
      setAuthorizationHeader_def Header_Add_def TrimPrefix_def HasPrefix_def)

section \<open>The locator of GetAllBuilds (C3, C10)\<close>

lemma GetAllBuilds_sent:
  "url_Parse env (GetAllBuilds_requestURL t p) = None \<Longrightarrow>
   sent (snd (GetAllBuilds env t p)) = [json_request t ''GET'' (GetAllBuilds_requestURL t p) None]"
  by (auto simp: GetAllBuilds_def Let_def NewRequest_def set_headers_def json_request_def
      setAuthorizationHeader_def Header_Add_def split: sum.splits option.splits prod.splits)

lemma GetAllBuilds_unparsed:
  "url_Parse env (GetAllBuilds_requestURL t p) = Some e \<Longrightarrow>
   GetAllBuilds env t p = ((zero_TCBuildSnapshotDependencies, Some e), [])"
  by (simp add: GetAllBuilds_def Let_def NewRequest_def)

lemma append_if: "(if c then u @ x else u) = u @ (if c then x else [])"
  by simp

lemma fragment_if: "concat (map fragment (if c then [kv] else [])) = (if c then fragment kv else [])"
  by simp

lemma requestURL_locator:
  "GetAllBuilds_requestURL t p = serverURL t @ ''/app/rest/builds/?locator='' @ locator p"
proof -
  have l: "locator p =
     (if BuildTypeID p \<noteq> [] then ''buildType:(id:'' @ BuildTypeID p @ ''),'' else []) @
     (if Branch p \<noteq> [] then ''branch:(name:'' @ Branch p @ ''),'' else []) @
     (if User p \<noteq> [] then ''user:'' @ User p @ '','' else []) @
     (if Count p > 0 then ''count:'' @ fmt_d (Count p) @ '','' else []) @
     (if Start p > 0 then ''start:'' @ fmt_d (Start p) @ '','' else []) @
     (if LookupLimit p > 0 then ''lookupLimit:'' @ fmt_d (LookupLimit p) @ '','' else []) @
     (if Running p then ''running:'' @ fmt_t (Running p) @ '','' else []) @
     (if Cancelled p then ''cancelled:'' @ fmt_t (Cancelled p) @ '','' else [])"
    unfolding locator_def present_filters_def map_append concat_append fragment_if
    by (simp add: fragment_def fmt_t_def split del: if_split cong: if_cong)
  show ?thesis
    unfolding GetAllBuilds_requestURL_def Let_def l append_if append_assoc ..
qed

text \<open>
  Claim C3. For every \<open>TCQueryParams\<close> value the request URL is the base URL, then
  \<^verbatim>\<open>/app/rest/builds/?locator=\<close>, then one \<^verbatim>\<open>key:value,\<close> fragment per filter that is
  present, in the fixed order, every fragment with its comma. The filters
  \<^verbatim>\<open>{BuildTypeID:"bt1", Count:5}\<close> give the locator \<^verbatim>\<open>buildType:(id:bt1),count:5,\<close>. The URL is
  the one the GET request is sent to, when it parses; when it does not, nothing is sent
  and the parse error is returned.
\<close>

theorem locator_fragments_in_order:
  "GetAllBuilds_requestURL t p = serverURL t @ ''/app/rest/builds/?locator='' @ locator p \<and>
   locator \<lparr>BuildTypeID = ''bt1'', Branch = [], User = [], Count = 5, Start = 0,
            LookupLimit = 0, Running = False, Cancelled = False\<rparr> = ''buildType:(id:bt1),count:5,'' \<and>
   (case url_Parse env (GetAllBuilds_requestURL t p) of
      None \<Rightarrow> sent (snd (GetAllBuilds env t p)) =
                [json_request t ''GET'' (serverURL t @ ''/app/rest/builds/?locator='' @ locator p) None]
    | Some e \<Rightarrow> GetAllBuilds env t p = ((zero_TCBuildSnapshotDependencies, Some e), []))"
proof (intro conjI)
  show "GetAllBuilds_requestURL t p = serverURL t @ ''/app/rest/builds/?locator='' @ locator p"
    by (rule requestURL_locator)
  show "locator \<lparr>BuildTypeID = ''bt1'', Branch = [], User = [], Count = 5, Start = 0,
            LookupLimit = 0, Running = False, Cancelled = False\<rparr> = ''buildType:(id:bt1),count:5,''"
    by (simp add: locator_def present_filters_def fragment_def fmt_d_def digits.simps digit_def)
  show "case url_Parse env (GetAllBuilds_requestURL t p) of
      None \<Rightarrow> sent (snd (GetAllBuilds env t p)) =
                [json_request t ''GET'' (serverURL t @ ''/app/rest/builds/?locator='' @ locator p) None]
    | Some e \<Rightarrow> GetAllBuilds env t p = ((zero_TCBuildSnapshotDependencies, Some e), [])"
    using GetAllBuilds_sent [of env t p] GetAllBuilds_unparsed [of env t p]
    by (simp add: requestURL_locator split: option.splits)
qed

theorem locator_fragments_in_order_witness:
  "sent (snd (GetAllBuilds env_demo client_demo
       \<lparr>BuildTypeID = ''bt1'', Branch = [], User = [], Count = 5, Start = 0,
        LookupLimit = 0, Running = False, Cancelled = False\<rparr>)) =
     [json_request client_demo ''GET''
        ''https://ci/app/rest/builds/?locator=buildType:(id:bt1),count:5,'' None]"
  using locator_fragments_in_order
    [of client_demo "\<lparr>BuildTypeID = ''bt1'', Branch = [], User = [], Count = 5, Start = 0,
        LookupLimit = 0, Running = False, Cancelled = False\<rparr>" env_demo]
  by (simp add: env_demo_def client_demo_def NewTeamcityClient_def)

text \<open>
  Claim C10. With every filter at its zero value the request URL is exactly the base URL
  followed by \<^verbatim>\<open>/app/rest/builds/?locator=\<close>, with no fragment and no comma, and the GET
  request goes to that URL whenever the URL parses.
\<close>

theorem empty_filter_set_url:
  "GetAllBuilds_requestURL t no_filters = serverURL t @ ''/app/rest/builds/?locator='' \<and>
   (url_Parse env (serverURL t @ ''/app/rest/builds/?locator='') = None \<longrightarrow>
      sent (snd (GetAllBuilds env t no_filters)) =
        [json_request t ''GET'' (serverURL t @ ''/app/rest/builds/?locator='') None])"
proof -
  have u: "GetAllBuilds_requestURL t no_filters = serverURL t @ ''/app/rest/builds/?locator=''"
    by (simp add: GetAllBuilds_requestURL_def no_filters_def)
  show ?thesis
    using GetAllBuilds_sent [of env t no_filters] by (simp add: u)
qed

theorem empty_filter_set_url_witness:
  "url_Parse env_demo (serverURL client_demo @ ''/app/rest/builds/?locator='') = None \<and>
   sent (snd (GetAllBuilds env_demo client_demo no_filters)) =
     [json_request client_demo ''GET'' ''https://ci/app/rest/builds/?locator='' None]"
  using empty_filter_set_url [of client_demo env_demo]
  by (simp add: env_demo_def client_demo_def NewTeamcityClient_def)

section \<open>The payload of StartBuild (C4, C5)\<close>

lemma range_params_map: "range_params ps acc = acc @ map (\<lambda>(k, v). \<lparr>Name = k, Value = v\<rparr>) ps"
  by (induction ps arbitrary: acc) auto

lemma range_deps_map: "range_deps ds acc = acc @ map (\<lambda>(k, v). \<lparr>ID = v, TCBuildDetails.BuildTypeID = k\<rparr>) ds"
  by (induction ds arbitrary: acc) auto

lemma payload_Properties:
  "Property (Properties (StartBuild_payload b br c ps sd ad)) = map (\<lambda>(k, v). \<lparr>Name = k, Value = v\<rparr>) ps"
  by (simp add: StartBuild_payload_def Let_def range_params_map)

lemma payload_SnapshotDependencies:
  "SnapshotDependencies (StartBuild_payload b br c ps sd ad) =
     (if sd = [] then None else Some \<lparr>Builds = map (\<lambda>(k, v). \<lparr>ID = v, TCBuildDetails.BuildTypeID = k\<rparr>) sd\<rparr>)"
  by (simp add: StartBuild_payload_def Let_def range_deps_map)

lemma payload_ArtifactDependencies:
  "ArtifactDependencies (StartBuild_payload b br c ps sd ad) =
     (if ad = [] then None else Some \<lparr>Builds = map (\<lambda>(k, v). \<lparr>ID = v, TCBuildDetails.BuildTypeID = k\<rparr>) ad\<rparr>)"
  by (simp add: StartBuild_payload_def Let_def range_deps_map)

lemma StartBuild_sent:
  "json_Marshal_build env (StartBuild_payload b br c ps sd ad) = Inr bs \<Longrightarrow>
   url_Parse env (serverURL t @ ''/app/rest/buildQueue'') = None \<Longrightarrow>
   sent (snd (StartBuild env t b br c ps sd ad)) =
     [json_request t ''POST'' (serverURL t @ ''/app/rest/buildQueue'') (Some bs)]"
  by (auto simp: StartBuild_def Let_def NewRequest_def set_headers_def json_request_def
      setAuthorizationHeader_def Header_Add_def split: sum.splits option.splits prod.splits)

text \<open>
  Claim C4. The payload of \<open>StartBuild\<close> has its snapshot dependencies set exactly when
  the snapshot-dependency map has an entry, and then they are the builds of the entries,
  each with the entry's value as ID and its key as build-type ID; an empty map leaves
  the field unset (the nil pointer), never an empty list. The same holds for the artifact
  dependencies. The payload is the one marshalled into the body of the request.
\<close>

theorem dependencies_only_if_nonempty:
  fixes env :: "'d env" and b br c :: string and ps :: "(string, string) gomap"
    and sd ad :: "(string, int) gomap"
  defines "P \<equiv> StartBuild_payload b br c ps sd ad"
  shows
  "SnapshotDependencies P =
     (if sd = [] then None
      else Some \<lparr>Builds = map (\<lambda>(k, v). \<lparr>ID = v, TCBuildDetails.BuildTypeID = k\<rparr>) sd\<rparr>) \<and>
   ArtifactDependencies P =
     (if ad = [] then None
      else Some \<lparr>Builds = map (\<lambda>(k, v). \<lparr>ID = v, TCBuildDetails.BuildTypeID = k\<rparr>) ad\<rparr>) \<and>
   (SnapshotDependencies P \<noteq> None) = (sd \<noteq> []) \<and>
   (ArtifactDependencies P \<noteq> None) = (ad \<noteq> []) \<and>
   SnapshotDependencies P \<noteq> Some \<lparr>Builds = []\<rparr> \<and>
   ArtifactDependencies P \<noteq> Some \<lparr>Builds = []\<rparr> \<and>
   (\<forall>(k, v) \<in> set sd. \<exists>deps. SnapshotDependencies P = Some deps \<and>
        \<lparr>ID = v, TCBuildDetails.BuildTypeID = k\<rparr> \<in> set (Builds deps)) \<and>
   (\<forall>(k, v) \<in> set ad. \<exists>deps. ArtifactDependencies P = Some deps \<and>
        \<lparr>ID = v, TCBuildDetails.BuildTypeID = k\<rparr> \<in> set (Builds deps)) \<and>
   (json_Marshal_build env P = Inr bs \<longrightarrow>
    url_Parse env (serverURL t @ ''/app/rest/buildQueue'') = None \<longrightarrow>
      sent (snd (StartBuild env t b br c ps sd ad)) =
        [json_request t ''POST'' (serverURL t @ ''/app/rest/buildQueue'') (Some bs)])"
proof -
  have s: "SnapshotDependencies P =
     (if sd = [] then None
      else Some \<lparr>Builds = map (\<lambda>(k, v). \<lparr>ID = v, TCBuildDetails.BuildTypeID = k\<rparr>) sd\<rparr>)"
    unfolding P_def by (rule payload_SnapshotDependencies)
  have a: "ArtifactDependencies P =
     (if ad = [] then None
      else Some \<lparr>Builds = map (\<lambda>(k, v). \<lparr>ID = v, TCBuildDetails.BuildTypeID = k\<rparr>) ad\<rparr>)"
    unfolding P_def by (rule payload_ArtifactDependencies)
  have s_mem: "\<forall>(k, v) \<in> set sd. \<exists>deps. SnapshotDependencies P = Some deps \<and>
        \<lparr>ID = v, TCBuildDetails.BuildTypeID = k\<rparr> \<in> set (Builds deps)"
    unfolding s by force
  have a_mem: "\<forall>(k, v) \<in> set ad. \<exists>deps. ArtifactDependencies P = Some deps \<and>
        \<lparr>ID = v, TCBuildDetails.BuildTypeID = k\<rparr> \<in> set (Builds deps)"
    unfolding a by force
  have w: "json_Marshal_build env P = Inr bs \<longrightarrow>
    url_Parse env (serverURL t @ ''/app/rest/buildQueue'') = None \<longrightarrow>
      sent (snd (StartBuild env t b br c ps sd ad)) =
        [json_request t ''POST'' (serverURL t @ ''/app/rest/buildQueue'') (Some bs)]"
    unfolding P_def using StartBuild_sent [of env b br c ps sd ad bs t] by blast
  have s1: "(SnapshotDependencies P \<noteq> None) = (sd \<noteq> [])" unfolding s by simp
  have a1: "(ArtifactDependencies P \<noteq> None) = (ad \<noteq> [])" unfolding a by simp
  have s2: "SnapshotDependencies P \<noteq> Some \<lparr>Builds = []\<rparr>" unfolding s by simp
  have a2: "ArtifactDependencies P \<noteq> Some \<lparr>Builds = []\<rparr>" unfolding a by simp
  from s a s1 a1 s2 a2 s_mem a_mem w show ?thesis by blast
qed

theorem dependencies_only_if_nonempty_witness:
  "SnapshotDependencies
     (StartBuild_payload ''bt'' ''main'' ''go'' [] [(''BuildTypeA'', 42)] []) =
     Some \<lparr>Builds = [\<lparr>ID = 42, TCBuildDetails.BuildTypeID = ''BuildTypeA''\<rparr>]\<rparr> \<and>
   ArtifactDependencies
     (StartBuild_payload ''bt'' ''main'' ''go'' [] [(''BuildTypeA'', 42)] []) = None \<and>
   sent (snd (StartBuild env_demo client_demo ''bt'' ''main'' ''go'' [] [(''BuildTypeA'', 42)] [])) =
     [json_request client_demo ''POST'' ''https://ci/app/rest/buildQueue'' (Some ''build'')]"
  using dependencies_only_if_nonempty
    [of "''bt''" "''main''" "''go''" "[]" "[(''BuildTypeA'', 42)]" "[]" env_demo "''build''"
        client_demo]
  by (simp add: env_demo_def client_demo_def NewTeamcityClient_def)

text \<open>
  Claim C5. The properties of the payload are one name and value pair per entry of the
  parameter map, in the order the loop visits the entries, and nothing else: for a map
  (distinct keys) the names are distinct, a pair is in the list exactly when the map
  sends its name to its value, and two visiting orders of the same map give the same set
  of properties. The map \<^verbatim>\<open>{"KEY":"VALUE"}\<close> with empty dependency maps gives the single
  property \<^verbatim>\<open>KEY\<close>, \<^verbatim>\<open>VALUE\<close> and both dependency fields unset. This payload is the
  one \<open>StartBuild\<close> hands to the marshaller: when marshalling it fails, \<open>StartBuild\<close>
  returns that error and sends nothing, and when it succeeds and the URL parses, the
  one request sent is the POST whose body is the marshalled payload.
\<close>

theorem properties_one_per_parameter:
  fixes env :: "'d env" and b br c :: string and sd ad :: "(string, int) gomap"
  defines "props \<equiv> \<lambda>ps. Property (Properties (StartBuild_payload b br c ps sd ad))"
  shows
  "props ps = map (\<lambda>(k, v). \<lparr>Name = k, Value = v\<rparr>) ps \<and>
   length (props ps) = length ps \<and>
   (gomap_ok ps \<longrightarrow>
      distinct (map Name (props ps)) \<and>
      (\<forall>k v. (\<lparr>Name = k, Value = v\<rparr> \<in> set (props ps)) = (map_of ps k = Some v))) \<and>
   (gomap_ok ps \<and> gomap_ok ps' \<and> map_of ps' = map_of ps \<longrightarrow> set (props ps') = set (props ps)) \<and>
   StartBuild_payload b br c [(''KEY'', ''VALUE'')] [] [] =
     \<lparr>BuildType = \<lparr>TCBuildType.ID = b\<rparr>, TCBuildPayload.Comment = \<lparr>Text = c\<rparr>,
      Properties = \<lparr>Property = [\<lparr>Name = ''KEY'', Value = ''VALUE''\<rparr>]\<rparr>,
      Personal = ''False'', BranchName = br,
      SnapshotDependencies = None, ArtifactDependencies = None\<rparr> \<and>
   (json_Marshal_build env (StartBuild_payload b br c ps sd ad) = Inl err \<longrightarrow>
      StartBuild env t b br c ps sd ad = ((- 1, Some err), [Println_error err])) \<and>
   (json_Marshal_build env (StartBuild_payload b br c ps sd ad) = Inr bs \<longrightarrow>
    url_Parse env (serverURL t @ ''/app/rest/buildQueue'') = None \<longrightarrow>
      sent (snd (StartBuild env t b br c ps sd ad)) =
        [json_request t ''POST'' (serverURL t @ ''/app/rest/buildQueue'') (Some bs)])"
proof -
  have p: "props qs = map (\<lambda>(k, v). \<lparr>Name = k, Value = v\<rparr>) qs" for qs
    unfolding props_def by (rule payload_Properties)
  have n: "map Name (props qs) = map fst qs" for qs
    unfolding p by (induction qs) auto
  have m: "(\<lparr>Name = k, Value = v\<rparr> \<in> set (props qs)) = ((k, v) \<in> set qs)" for k v qs
    unfolding p by (induction qs) auto
  have d: "gomap_ok qs \<Longrightarrow>
      (\<lparr>Name = k, Value = v\<rparr> \<in> set (props qs)) = (map_of qs k = Some v)" for k v qs
    unfolding m by (simp add: gomap_ok_def)
  have e: "set (props ps') = set (props ps)"
    if "gomap_ok ps" "gomap_ok ps'" "map_of ps' = map_of ps"
  proof -
    have "(x \<in> set (props ps')) = (x \<in> set (props ps))" for x
    proof (cases x)
      case (fields k v)
      with d [OF that(1), of k v] d [OF that(2), of k v] that(3) show ?thesis
        by simp
    qed
    then show ?thesis by blast
  qed
  have x: "StartBuild_payload b br c [(''KEY'', ''VALUE'')] [] [] =
     \<lparr>BuildType = \<lparr>TCBuildType.ID = b\<rparr>, TCBuildPayload.Comment = \<lparr>Text = c\<rparr>,
      Properties = \<lparr>Property = [\<lparr>Name = ''KEY'', Value = ''VALUE''\<rparr>]\<rparr>,
      Personal = ''False'', BranchName = br,
      SnapshotDependencies = None, ArtifactDependencies = None\<rparr>"
    by (simp add: StartBuild_payload_def)
  have l: "length (props ps) = length ps" unfolding p by simp
  have g: "gomap_ok ps \<longrightarrow>
      distinct (map Name (props ps)) \<and>
      (\<forall>k v. (\<lparr>Name = k, Value = v\<rparr> \<in> set (props ps)) = (map_of ps k = Some v))"
    using d [of ps] by (simp add: n gomap_ok_def)
  have f: "json_Marshal_build env (StartBuild_payload b br c ps sd ad) = Inl err \<longrightarrow>
      StartBuild env t b br c ps sd ad = ((- 1, Some err), [Println_error err])"
    by (simp add: StartBuild_def)
  have w: "json_Marshal_build env (StartBuild_payload b br c ps sd ad) = Inr bs \<longrightarrow>
    url_Parse env (serverURL t @ ''/app/rest/buildQueue'') = None \<longrightarrow>
      sent (snd (StartBuild env t b br c ps sd ad)) =
        [json_request t ''POST'' (serverURL t @ ''/app/rest/buildQueue'') (Some bs)]"
    using StartBuild_sent [of env b br c ps sd ad bs t] by blast
  from p [of ps] l g e x f w show ?thesis by blast
qed

theorem properties_one_per_parameter_witness:
  "gomap_ok [(''A'', ''1''), (''B'', ''2'')] \<and> gomap_ok [(''B'', ''2''), (''A'', ''1'')] \<and>
   Property (Properties (StartBuild_payload ''bt'' ''main'' ''go''
      [(''A'', ''1''), (''B'', ''2'')] [] [])) =
     [\<lparr>Name = ''A'', Value = ''1''\<rparr>, \<lparr>Name = ''B'', Value = ''2''\<rparr>] \<and>
   set (Property (Properties (StartBuild_payload ''bt'' ''main'' ''go''
      [(''B'', ''2''), (''A'', ''1'')] [] []))) =
   set (Property (Properties (StartBuild_payload ''bt'' ''main'' ''go''
      [(''A'', ''1''), (''B'', ''2'')] [] []))) \<and>
   json_Marshal_build env_demo
     (StartBuild_payload ''bt'' ''main'' ''go'' [(''A'', ''1''), (''B'', ''2'')] [] []) =
     Inr ''build'' \<and>
   sent (snd (StartBuild env_demo client_demo ''bt'' ''main'' ''go''
      [(''A'', ''1''), (''B'', ''2'')] [] [])) =
     [json_request client_demo ''POST'' ''https://ci/app/rest/buildQueue'' (Some ''build'')] \<and>
   StartBuild (env_demo\<lparr>json_Marshal_build := \<lambda>p. Inl (Error ''unsupported'')\<rparr>) client_demo
      ''bt'' ''main'' ''go'' [(''A'', ''1''), (''B'', ''2'')] [] [] =
     ((- 1, Some (Error ''unsupported'')), [Println_error (Error ''unsupported'')])"
proof -
  let ?ps = "[(''A'', ''1''), (''B'', ''2'')]"
  let ?bad = "env_demo\<lparr>json_Marshal_build := \<lambda>p. Inl (Error ''unsupported'')\<rparr>"
  have g1: "gomap_ok ?ps" by (simp add: gomap_ok_def)
  have g2: "gomap_ok [(''B'', ''2''), (''A'', ''1'')]" by (simp add: gomap_ok_def)
  have m: "map_of [(''B'', ''2''), (''A'', ''1'')] = map_of ?ps"
    by (rule ext) simp
  have k: "json_Marshal_build env_demo (StartBuild_payload ''bt'' ''main'' ''go'' ?ps [] []) =
     Inr ''build''"
    by (simp add: env_demo_def)
  have u: "url_Parse env_demo (serverURL client_demo @ ''/app/rest/buildQueue'') = None"
    by (simp add: env_demo_def)
  have url: "serverURL client_demo @ ''/app/rest/buildQueue'' = ''https://ci/app/rest/buildQueue''"
    by (simp add: client_demo_def NewTeamcityClient_def)
  have kb: "json_Marshal_build ?bad (StartBuild_payload ''bt'' ''main'' ''go'' ?ps [] []) =
     Inl (Error ''unsupported'')"
    by simp
  note ok = properties_one_per_parameter
    [where env = env_demo and t = client_demo and b = "''bt''" and br = "''main''"
       and c = "''go''" and ps = ?ps and sd = "[]" and ad = "[]"
       and ps' = "[(''B'', ''2''), (''A'', ''1'')]" and bs = "''build''"]
  note bad = properties_one_per_parameter
    [where env = ?bad and t = client_demo and b = "''bt''" and br = "''main''"
       and c = "''go''" and ps = ?ps and sd = "[]" and ad = "[]"
       and err = "Error ''unsupported''"]
  from ok have p: "Property (Properties (StartBuild_payload ''bt'' ''main'' ''go'' ?ps [] [])) =
     [\<lparr>Name = ''A'', Value = ''1''\<rparr>, \<lparr>Name = ''B'', Value = ''2''\<rparr>]"
    by simp
  from ok g1 g2 m have e: "set (Property (Properties (StartBuild_payload ''bt'' ''main'' ''go''
      [(''B'', ''2''), (''A'', ''1'')] [] []))) =
   set (Property (Properties (StartBuild_payload ''bt'' ''main'' ''go'' ?ps [] [])))"
    by blast
  from ok k u have s: "sent (snd (StartBuild env_demo client_demo ''bt'' ''main'' ''go'' ?ps [] [])) =
     [json_request client_demo ''POST'' (serverURL client_demo @ ''/app/rest/buildQueue'')
        (Some ''build'')]"
    by blast
  from bad kb have f: "StartBuild ?bad client_demo ''bt'' ''main'' ''go'' ?ps [] [] =
     ((- 1, Some (Error ''unsupported'')), [Println_error (Error ''unsupported'')])"
    by blast
  from g1 g2 p e k s f show ?thesis
    unfolding url by blast
qed

section \<open>Status codes (C1)\<close>

lemma GetBuild_with_status: "GetBuild (with_status f env) t i d = GetBuild env t i d"
  by (simp add: GetBuild_def with_status_def NewRequest_def Let_def
      split: sum.splits option.splits prod.splits)

lemma StartBuild_with_status:
  "StartBuild (with_status f env) t b br c ps sd ad = StartBuild env t b br c ps sd ad"
  by (simp add: StartBuild_def with_status_def NewRequest_def Let_def
      split: sum.splits option.splits prod.splits)

lemma GetAllBuilds_with_status: "GetAllBuilds (with_status f env) t q = GetAllBuilds env t q"
  by (simp add: GetAllBuilds_def with_status_def NewRequest_def Let_def
      split: sum.splits option.splits prod.splits)

lemma set_headers_fresh:
  "set_headers t \<lparr>Method = m, URL = u, http_Request.Header = [], http_Request.Body = b\<rparr> =
     json_request t m u b"
  by (simp add: set_headers_def json_request_def setAuthorizationHeader_def Header_Add_def)

lemma GetBuild_parsed:
  assumes "url_Parse env (serverURL t @ ''/app/rest/builds/id:'' @ fmt_d i) = None"
    and "client_Do env (client t)
           (json_request t ''GET'' (serverURL t @ ''/app/rest/builds/id:'' @ fmt_d i) None) = Inr resp"
    and "http_Response.Body resp = (body, None)"
    and "json_Unmarshal env body d = (d', None)"
  shows "fst (GetBuild env t i d) = (d', None)"
  using assms by (simp add: GetBuild_def NewRequest_def set_headers_fresh)

lemma StartBuild_parsed:
  assumes "json_Marshal_build env (StartBuild_payload b br c ps sd ad) = Inr bs"
    and "url_Parse env (serverURL t @ ''/app/rest/buildQueue'') = None"
    and "client_Do env (client t)
           (json_request t ''POST'' (serverURL t @ ''/app/rest/buildQueue'') (Some bs)) = Inr resp"
    and "http_Response.Body resp = (body, None)"
    and "json_Unmarshal_details env body zero_TCBuildDetails = (bd, None)"
  shows "fst (StartBuild env t b br c ps sd ad) = (ID bd, None)"
  using assms by (simp add: StartBuild_def NewRequest_def set_headers_fresh)

lemma GetAllBuilds_parsed:
  assumes "url_Parse env (GetAllBuilds_requestURL t q) = None"
    and "client_Do env (client t) (json_request t ''GET'' (GetAllBuilds_requestURL t q) None) = Inr resp"
    and "http_Response.Body resp = (body, None)"
    and "json_Unmarshal_builds env body zero_TCBuildSnapshotDependencies = (bl, None)"
  shows "fst (GetAllBuilds env t q) = (bl, None)"
  using assms by (simp add: GetAllBuilds_def NewRequest_def set_headers_fresh)

text \<open>
  Claim C1. \<open>GetBuild\<close>, \<open>StartBuild\<close> and \<open>GetAllBuilds\<close> never look at the status code:
  rewriting the status code of every response in any way changes neither their results
  nor their events. And whatever the status of the response to the request, if its body
  is read without error and decodes into the destination without error, the operation
  returns the decoded value and no error.
\<close>

theorem status_code_never_inspected:
  "GetBuild (with_status f env) t i d = GetBuild env t i d \<and>
   StartBuild (with_status f env) t b br c ps sd ad = StartBuild env t b br c ps sd ad \<and>
   GetAllBuilds (with_status f env) t q = GetAllBuilds env t q \<and>
   (url_Parse env (serverURL t @ ''/app/rest/builds/id:'' @ fmt_d i) = None \<and>
    client_Do env (client t)
      (json_request t ''GET'' (serverURL t @ ''/app/rest/builds/id:'' @ fmt_d i) None) = Inr resp \<and>
    http_Response.Body resp = (body, None) \<and>
    json_Unmarshal env body d = (d', None) \<longrightarrow>
      fst (GetBuild env t i d) = (d', None)) \<and>
   (json_Marshal_build env (StartBuild_payload b br c ps sd ad) = Inr bs \<and>
    url_Parse env (serverURL t @ ''/app/rest/buildQueue'') = None \<and>
    client_Do env (client t)
      (json_request t ''POST'' (serverURL t @ ''/app/rest/buildQueue'') (Some bs)) = Inr resp \<and>
    http_Response.Body resp = (body, None) \<and>
    json_Unmarshal_details env body zero_TCBuildDetails = (bd, None) \<longrightarrow>
      fst (StartBuild env t b br c ps sd ad) = (ID bd, None)) \<and>
   (url_Parse env (GetAllBuilds_requestURL t q) = None \<and>
    client_Do env (client t)
      (json_request t ''GET'' (GetAllBuilds_requestURL t q) None) = Inr resp \<and>
    http_Response.Body resp = (body, None) \<and>
    json_Unmarshal_builds env body zero_TCBuildSnapshotDependencies = (bl, None) \<longrightarrow>
      fst (GetAllBuilds env t q) = (bl, None))"
  using GetBuild_with_status [of f env t i d]
    StartBuild_with_status [of f env t b br c ps sd ad]
    GetAllBuilds_with_status [of f env t q]
    GetBuild_parsed [of env t i resp body d d']
    StartBuild_parsed [of env b br c ps sd ad bs t resp body bd]
    GetAllBuilds_parsed [of env t q resp body bl]
  by blast

text \<open>An instance: the server answers 404 with a body that decodes to build 42.\<close>

theorem status_code_never_inspected_witness:
  "client_Do env_demo (client client_demo)
     (json_request client_demo ''GET'' (serverURL client_demo @ ''/app/rest/builds/id:'' @ fmt_d 7) None) =
     Inr \<lparr>StatusCode = 404, http_Response.Header = [(''Content-Type'', ''text/plain'')],
          http_Response.Body = (''{id:42}'', None)\<rparr> \<and>
   fst (GetBuild env_demo client_demo 7 zero_TCBuildDetails) =
     (\<lparr>ID = 42, TCBuildDetails.BuildTypeID = []\<rparr>, None) \<and>
   fst (StartBuild env_demo client_demo ''bt'' ''main'' ''go'' [] [] []) = (42, None) \<and>
   fst (GetAllBuilds env_demo client_demo no_filters) = (\<lparr>Builds = []\<rparr>, None)"
  using status_code_never_inspected
    [of "\<lambda>s. s" env_demo client_demo 7 zero_TCBuildDetails "''bt''" "''main''" "''go''" "[]" "[]" "[]"
        no_filters
        "\<lparr>StatusCode = 404, http_Response.Header = [(''Content-Type'', ''text/plain'')],
          http_Response.Body = (''{id:42}'', None)\<rparr>"
        "''{id:42}''" "\<lparr>ID = 42, TCBuildDetails.BuildTypeID = []\<rparr>" "''build''"
        "\<lparr>ID = 42, TCBuildDetails.BuildTypeID = []\<rparr>" "\<lparr>Builds = []\<rparr>"]
  by (simp add: env_demo_def zero_TCBuildDetails_def zero_TCBuildSnapshotDependencies_def)

section \<open>The results of StartBuild (C6)\<close>

lemma StartBuild_fst:
  "fst (StartBuild env t b br c ps sd ad) =
     (case json_Marshal_build env (StartBuild_payload b br c ps sd ad) of
        Inl err \<Rightarrow> (- 1, Some err)
      | Inr bs \<Rightarrow>
          (case url_Parse env (serverURL t @ ''/app/rest/buildQueue'') of
             Some err \<Rightarrow> (- 1, Some err)
           | None \<Rightarrow>
               (case client_Do env (client t)
                       (json_request t ''POST'' (serverURL t @ ''/app/rest/buildQueue'') (Some bs)) of
                  Inl err \<Rightarrow> (- 1, Some err)
                | Inr resp \<Rightarrow>
                    (case http_Response.Body resp of
                       (body, Some err) \<Rightarrow> (- 1, Some err)
                     | (body, None) \<Rightarrow>
                         (case json_Unmarshal_details env body zero_TCBuildDetails of
                            (bd, Some err) \<Rightarrow> (- 1, Some err)
                          | (bd, None) \<Rightarrow> (ID bd, None))))))"
  by (auto simp: StartBuild_def NewRequest_def set_headers_fresh Let_def
      split: sum.splits option.splits prod.splits)

text \<open>
  Claim C6. \<open>StartBuild\<close> returns \<open>-1\<close> with the error \<open>err\<close> exactly when marshalling the
  payload fails with \<open>err\<close>, or building the request fails with \<open>err\<close>, or the network call
  fails with \<open>err\<close>, or reading the body fails with \<open>err\<close>, or decoding the body into the
  build details fails with \<open>err\<close>, each stage being reached when the stages before it
  succeeded. It returns no error exactly when every stage succeeds, and then it
  returns the ID of the decoded build details. An error never comes with an ID other
  than \<open>-1\<close>.
\<close>

theorem StartBuild_error_cases:
  fixes env :: "'d env" and b br c :: string and ps :: "(string, string) gomap"
    and sd ad :: "(string, int) gomap" and t :: TCClient
  defines "P \<equiv> StartBuild_payload b br c ps sd ad"
    and "U \<equiv> serverURL t @ ''/app/rest/buildQueue''"
    and "r \<equiv> fst (StartBuild env t b br c ps sd ad)"
  shows
  "(\<forall>err. (r = (- 1, Some err)) =
      (json_Marshal_build env P = Inl err \<or>
       (\<exists>bs. json_Marshal_build env P = Inr bs \<and> url_Parse env U = Some err) \<or>
       (\<exists>bs. json_Marshal_build env P = Inr bs \<and> url_Parse env U = None \<and>
          client_Do env (client t) (json_request t ''POST'' U (Some bs)) = Inl err) \<or>
       (\<exists>bs resp body. json_Marshal_build env P = Inr bs \<and> url_Parse env U = None \<and>
          client_Do env (client t) (json_request t ''POST'' U (Some bs)) = Inr resp \<and>
          http_Response.Body resp = (body, Some err)) \<or>
       (\<exists>bs resp body bd. json_Marshal_build env P = Inr bs \<and> url_Parse env U = None \<and>
          client_Do env (client t) (json_request t ''POST'' U (Some bs)) = Inr resp \<and>
          http_Response.Body resp = (body, None) \<and>
          json_Unmarshal_details env body zero_TCBuildDetails = (bd, Some err)))) \<and>
   (snd r = None) =
      (\<exists>bs resp body bd. json_Marshal_build env P = Inr bs \<and> url_Parse env U = None \<and>
          client_Do env (client t) (json_request t ''POST'' U (Some bs)) = Inr resp \<and>
          http_Response.Body resp = (body, None) \<and>
          json_Unmarshal_details env body zero_TCBuildDetails = (bd, None) \<and>
          r = (ID bd, None)) \<and>
   (snd r \<noteq> None \<longrightarrow> fst r = - 1)"
proof (intro conjI allI)
  fix err
  show "(r = (- 1, Some err)) =
      (json_Marshal_build env P = Inl err \<or>
       (\<exists>bs. json_Marshal_build env P = Inr bs \<and> url_Parse env U = Some err) \<or>
       (\<exists>bs. json_Marshal_build env P = Inr bs \<and> url_Parse env U = None \<and>
          client_Do env (client t) (json_request t ''POST'' U (Some bs)) = Inl err) \<or>
       (\<exists>bs resp body. json_Marshal_build env P = Inr bs \<and> url_Parse env U = None \<and>
          client_Do env (client t) (json_request t ''POST'' U (Some bs)) = Inr resp \<and>
          http_Response.Body resp = (body, Some err)) \<or>
       (\<exists>bs resp body bd. json_Marshal_build env P = Inr bs \<and> url_Parse env U = None \<and>
          client_Do env (client t) (json_request t ''POST'' U (Some bs)) = Inr resp \<and>
          http_Response.Body resp = (body, None) \<and>
          json_Unmarshal_details env body zero_TCBuildDetails = (bd, Some err)))"
    unfolding r_def P_def U_def StartBuild_fst
    by (auto split: sum.splits option.splits prod.splits)
next
  show "(snd r = None) =
      (\<exists>bs resp body bd. json_Marshal_build env P = Inr bs \<and> url_Parse env U = None \<and>
          client_Do env (client t) (json_request t ''POST'' U (Some bs)) = Inr resp \<and>
          http_Response.Body resp = (body, None) \<and>
          json_Unmarshal_details env body zero_TCBuildDetails = (bd, None) \<and>
          r = (ID bd, None))"
    unfolding r_def P_def U_def StartBuild_fst
    by (auto split: sum.splits option.splits prod.splits)
next
  show "snd r \<noteq> None \<longrightarrow> fst r = - 1"
    unfolding r_def StartBuild_fst
    by (auto split: sum.splits option.splits prod.splits)
qed

text \<open>Two instances: the network down, and every stage succeeding.\<close>

theorem StartBuild_error_cases_witness:
  "snd (fst (StartBuild env_down client_demo ''bt'' ''main'' ''go'' [] [] [])) \<noteq> None \<and>
   fst (StartBuild env_down client_demo ''bt'' ''main'' ''go'' [] [] []) =
     (- 1, Some (Error ''timeout'')) \<and>
   fst (StartBuild env_demo client_demo ''bt'' ''main'' ''go'' [] [] []) = (42, None)"
proof -
  have down: "fst (StartBuild env_down client_demo ''bt'' ''main'' ''go'' [] [] []) =
     (- 1, Some (Error ''timeout''))"
    using StartBuild_error_cases [where env = env_down and t = client_demo and b = "''bt''"
      and br = "''main''" and c = "''go''" and ps = "[]" and sd = "[]" and ad = "[]"]
    by (auto simp: env_down_def env_demo_def)
  obtain n e where r: "fst (StartBuild env_demo client_demo ''bt'' ''main'' ''go'' [] [] []) = (n, e)"
    by (cases "fst (StartBuild env_demo client_demo ''bt'' ''main'' ''go'' [] [] [])")
  have up: "fst (StartBuild env_demo client_demo ''bt'' ''main'' ''go'' [] [] []) = (42, None)"
    using StartBuild_error_cases [where env = env_demo and t = client_demo and b = "''bt''"
      and br = "''main''" and c = "''go''" and ps = "[]" and sd = "[]" and ad = "[]"]
    unfolding r by (cases e) (auto simp: env_demo_def zero_TCBuildDetails_def)
  from down up show ?thesis by simp
qed

section \<open>CancelQueuedBuild and StopBuild (C7, C8)\<close>

lemma CancelQueuedBuild_sent:
  "json_Marshal_stop env \<lparr>TCBuildStopPayload.Comment = c, ReaddIntoQueue = ''false''\<rparr> = Inr bs \<Longrightarrow>
   url_Parse env (serverURL t @ ''/app/rest/buildQueue/'' @ fmt_d i) = None \<Longrightarrow>
   sent (snd (CancelQueuedBuild env t i c)) =
     [json_request t ''POST'' (serverURL t @ ''/app/rest/buildQueue/'' @ fmt_d i) (Some bs)]"
  by (auto simp: CancelQueuedBuild_def NewRequest_def set_headers_fresh Let_def
      split: sum.splits option.splits prod.splits)

lemma CancelQueuedBuild_nil:
  "json_Marshal_stop env \<lparr>TCBuildStopPayload.Comment = c, ReaddIntoQueue = ''false''\<rparr> = Inr bs \<Longrightarrow>
   url_Parse env (serverURL t @ ''/app/rest/buildQueue/'' @ fmt_d i) = None \<Longrightarrow>
   client_Do env (client t)
     (json_request t ''POST'' (serverURL t @ ''/app/rest/buildQueue/'' @ fmt_d i) (Some bs)) = Inr resp \<Longrightarrow>
   http_Response.Body resp = (body, None) \<Longrightarrow>
   fst (CancelQueuedBuild env t i c) = None"
  by (simp add: CancelQueuedBuild_def NewRequest_def set_headers_fresh)

lemma CancelQueuedBuild_decoders:
  "CancelQueuedBuild
     (env\<lparr>json_Unmarshal_details := u1, json_Unmarshal_builds := u2, json_Unmarshal := u3\<rparr>) t i c =
   CancelQueuedBuild env t i c"
  by (simp add: CancelQueuedBuild_def NewRequest_def Let_def
      cong: sum.case_cong option.case_cong prod.case_cong)

lemma CancelQueuedBuild_answer:
  "fst (CancelQueuedBuild (with_answer f h g env) t i c) = fst (CancelQueuedBuild env t i c)"
  by (auto simp: CancelQueuedBuild_def NewRequest_def with_answer_def Let_def
      split: sum.splits option.splits prod.splits)

lemma fmt_d_7: "fmt_d 7 = ''7''"
  by (simp add: fmt_d_def digits.simps digit_def)

text \<open>
  Claim C7. For every build ID and comment, when the stop payload (the comment, and
  the re-queue flag \<^verbatim>\<open>false\<close>) marshals and the URL parses, \<open>CancelQueuedBuild\<close> sends one
  request: a POST of the marshalled payload to the base URL followed by
  \<^verbatim>\<open>/app/rest/buildQueue/\<close> and the ID in decimal (\<^verbatim>\<open>/app/rest/buildQueue/7\<close> for the ID 7).
  It returns no error whenever the client returns a response and the body is read,
  whatever the response is. The body is not parsed: the JSON decoders are never
  consulted, and rewriting the status code, the headers and the body bytes of the
  response in any way leaves the returned error as it is.
\<close>

theorem CancelQueuedBuild_round_trip:
  fixes env :: "'d env"
  defines "U \<equiv> \<lambda>t i. serverURL t @ ''/app/rest/buildQueue/'' @ fmt_d i"
  shows
  "(json_Marshal_stop env \<lparr>TCBuildStopPayload.Comment = c, ReaddIntoQueue = ''false''\<rparr> = Inr bs \<and>
    url_Parse env (U t i) = None \<longrightarrow>
      sent (snd (CancelQueuedBuild env t i c)) = [json_request t ''POST'' (U t i) (Some bs)]) \<and>
   (json_Marshal_stop env \<lparr>TCBuildStopPayload.Comment = c, ReaddIntoQueue = ''false''\<rparr> = Inr bs \<and>
    url_Parse env (U t i) = None \<and>
    client_Do env (client t) (json_request t ''POST'' (U t i) (Some bs)) = Inr resp \<and>
    http_Response.Body resp = (body, None) \<longrightarrow>
      fst (CancelQueuedBuild env t i c) = None) \<and>
   CancelQueuedBuild
     (env\<lparr>json_Unmarshal_details := u1, json_Unmarshal_builds := u2, json_Unmarshal := u3\<rparr>) t i c =
     CancelQueuedBuild env t i c \<and>
   fst (CancelQueuedBuild (with_answer f h g env) t i c) = fst (CancelQueuedBuild env t i c) \<and>
   U t 7 = serverURL t @ ''/app/rest/buildQueue/7''"
  unfolding U_def
  using CancelQueuedBuild_sent [of env c bs t i] CancelQueuedBuild_nil [of env c bs t i resp body]
    CancelQueuedBuild_decoders [where env = env and ?u1.0 = u1 and ?u2.0 = u2 and ?u3.0 = u3 and t = t
      and i = i and c = c] CancelQueuedBuild_answer [of f h g env t i c]
  by (simp add: fmt_d_7)

text \<open>An instance: cancelling build 7 against a server that answers 404.\<close>

theorem CancelQueuedBuild_round_trip_witness:
  "sent (snd (CancelQueuedBuild env_demo client_demo 7 ''no longer needed'')) =
     [json_request client_demo ''POST'' ''https://ci/app/rest/buildQueue/7'' (Some ''stop'')] \<and>
   fst (CancelQueuedBuild env_demo client_demo 7 ''no longer needed'') = None"
  using CancelQueuedBuild_round_trip
    [where env = env_demo and t = client_demo and i = 7 and c = "''no longer needed''"
       and bs = "''stop''" and body = "''{id:42}''"
       and resp = "\<lparr>StatusCode = 404, http_Response.Header = [(''Content-Type'', ''text/plain'')],
          http_Response.Body = (''{id:42}'', None)\<rparr>"]
  by (simp add: env_demo_def client_demo_def NewTeamcityClient_def fmt_d_7)

lemma StopBuild_sent:
  "json_Marshal_stop env \<lparr>TCBuildStopPayload.Comment = c, ReaddIntoQueue = ''false''\<rparr> = Inr bs \<Longrightarrow>
   url_Parse env (serverURL t @ ''/app/rest/builds/'' @ fmt_d i) = None \<Longrightarrow>
   sent (snd (StopBuild env t i c)) =
     [json_request t ''POST'' (serverURL t @ ''/app/rest/builds/'' @ fmt_d i) (Some bs)]"
  by (auto simp: StopBuild_def NewRequest_def set_headers_fresh Let_def
      split: sum.splits option.splits prod.splits)

lemma retarget_json_request: "retarget u u' (json_request t m u b) = json_request t m u' b"
  by (simp add: retarget_def json_request_def)

lemma StopBuild_retarget:
  "StopBuild env t i c =
     (fst (CancelQueuedBuild
             (env_retarget (serverURL t @ ''/app/rest/buildQueue/'' @ fmt_d i)
                (serverURL t @ ''/app/rest/builds/'' @ fmt_d i) env) t i c),
      map (retarget_event (serverURL t @ ''/app/rest/buildQueue/'' @ fmt_d i)
             (serverURL t @ ''/app/rest/builds/'' @ fmt_d i))
        (snd (CancelQueuedBuild
                (env_retarget (serverURL t @ ''/app/rest/buildQueue/'' @ fmt_d i)
                   (serverURL t @ ''/app/rest/builds/'' @ fmt_d i) env) t i c)))"
  by (auto simp: StopBuild_def CancelQueuedBuild_def NewRequest_def set_headers_fresh Let_def
      env_retarget_def retarget_json_request
      split: sum.splits option.splits prod.splits)

lemma StopBuild_nil:
  "json_Marshal_stop env \<lparr>TCBuildStopPayload.Comment = c, ReaddIntoQueue = ''false''\<rparr> = Inr bs \<Longrightarrow>
   url_Parse env (serverURL t @ ''/app/rest/builds/'' @ fmt_d i) = None \<Longrightarrow>
   client_Do env (client t)
     (json_request t ''POST'' (serverURL t @ ''/app/rest/builds/'' @ fmt_d i) (Some bs)) = Inr resp \<Longrightarrow>
   http_Response.Body resp = (body, None) \<Longrightarrow>
   fst (StopBuild env t i c) = None"
  by (simp add: StopBuild_def NewRequest_def set_headers_fresh)

lemma StopBuild_answer:
  "fst (StopBuild (with_answer f h g env) t i c) = fst (StopBuild env t i c)"
  by (auto simp: StopBuild_def NewRequest_def with_answer_def Let_def
      split: sum.splits option.splits prod.splits)

text \<open>
  Claim C8. \<open>StopBuild\<close> is \<open>CancelQueuedBuild\<close> with the request retargeted: for every
  environment, build ID and comment, the result of \<open>StopBuild\<close> is the result of
  \<open>CancelQueuedBuild\<close> in the environment that treats the queue URL
  \<^verbatim>\<open>/app/rest/buildQueue/{id}\<close> as the build URL \<^verbatim>\<open>/app/rest/builds/{id}\<close>, and its events are
  those of \<open>CancelQueuedBuild\<close> with the request sent to the build URL instead. So the
  payload, the headers, the log lines and the conditions of success and failure are
  the same. The request of \<open>StopBuild\<close> is a POST of the marshalled stop payload to the
  build URL; it returns no error whenever a response arrives and its body is read, and
  its returned error does not depend on the status code, the headers or the body bytes.
\<close>

theorem StopBuild_as_CancelQueuedBuild:
  fixes env :: "'d env" and t :: TCClient and i :: int
  defines "Q \<equiv> serverURL t @ ''/app/rest/buildQueue/'' @ fmt_d i"
    and "B \<equiv> serverURL t @ ''/app/rest/builds/'' @ fmt_d i"
  shows
  "StopBuild env t i c =
     (fst (CancelQueuedBuild (env_retarget Q B env) t i c),
      map (retarget_event Q B) (snd (CancelQueuedBuild (env_retarget Q B env) t i c))) \<and>
   (json_Marshal_stop env \<lparr>TCBuildStopPayload.Comment = c, ReaddIntoQueue = ''false''\<rparr> = Inr bs \<and>
    url_Parse env B = None \<longrightarrow>
      sent (snd (StopBuild env t i c)) = [json_request t ''POST'' B (Some bs)]) \<and>
   (json_Marshal_stop env \<lparr>TCBuildStopPayload.Comment = c, ReaddIntoQueue = ''false''\<rparr> = Inr bs \<and>
    url_Parse env B = None \<and>
    client_Do env (client t) (json_request t ''POST'' B (Some bs)) = Inr resp \<and>
    http_Response.Body resp = (body, None) \<longrightarrow>
      fst (StopBuild env t i c) = None) \<and>
   fst (StopBuild (with_answer f h g env) t i c) = fst (StopBuild env t i c)"
  unfolding Q_def B_def
  using StopBuild_retarget [of env t i c] StopBuild_sent [of env c bs t i]
    StopBuild_nil [of env c bs t i resp body] StopBuild_answer [of f h g env t i c]
  by blast

text \<open>An instance: stopping build 7 against a server that answers 404.\<close>

theorem StopBuild_as_CancelQueuedBuild_witness:
  "json_Marshal_stop env_demo
     \<lparr>TCBuildStopPayload.Comment = ''no longer needed'', ReaddIntoQueue = ''false''\<rparr> = Inr ''stop'' \<and>
   url_Parse env_demo (serverURL client_demo @ ''/app/rest/builds/'' @ fmt_d 7) = None \<and>
   sent (snd (StopBuild env_demo client_demo 7 ''no longer needed'')) =
     [json_request client_demo ''POST'' ''https://ci/app/rest/builds/7'' (Some ''stop'')] \<and>
   fst (StopBuild env_demo client_demo 7 ''no longer needed'') = None"
proof -
  let ?resp = "\<lparr>StatusCode = 404, http_Response.Header = [(''Content-Type'', ''text/plain'')],
          http_Response.Body = (''{id:42}'', None)\<rparr>"
  note w = StopBuild_as_CancelQueuedBuild
    [where env = env_demo and t = client_demo and i = 7 and c = "''no longer needed''"
       and bs = "''stop''" and body = "''{id:42}''" and resp = ?resp]
  have m: "json_Marshal_stop env_demo
     \<lparr>TCBuildStopPayload.Comment = ''no longer needed'', ReaddIntoQueue = ''false''\<rparr> = Inr ''stop''"
    by (simp add: env_demo_def)
  have u: "url_Parse env_demo (serverURL client_demo @ ''/app/rest/builds/'' @ fmt_d 7) = None"
    by (simp add: env_demo_def)
  have d: "client_Do env_demo (client client_demo)
      (json_request client_demo ''POST'' (serverURL client_demo @ ''/app/rest/builds/'' @ fmt_d 7)
         (Some ''stop'')) = Inr ?resp"
    by (simp add: env_demo_def)
  have b: "http_Response.Body ?resp = (''{id:42}'', None)"
    by simp
  have url: "serverURL client_demo @ ''/app/rest/builds/'' @ fmt_d 7 = ''https://ci/app/rest/builds/7''"
    by (simp add: client_demo_def NewTeamcityClient_def fmt_d_7)
  from w m u have s: "sent (snd (StopBuild env_demo client_demo 7 ''no longer needed'')) =
     [json_request client_demo ''POST'' (serverURL client_demo @ ''/app/rest/builds/'' @ fmt_d 7)
        (Some ''stop'')]"
    by blast
  from w m u d b have n: "fst (StopBuild env_demo client_demo 7 ''no longer needed'') = None"
    by blast
  from m u s n show ?thesis
    unfolding url by blast
qed

section \<open>GetArtifactTextFile (C9)\<close>

lemma GetArtifactTextFile_fst:
  "fst (GetArtifactTextFile env t path i) =
     (case url_Parse env
             (serverURL t @ ''/app/rest/builds/id:'' @ fmt_d i @ ''/artifacts/content/'' @ path) of
        Some err \<Rightarrow> ([], [], Some err)
      | None \<Rightarrow>
          (case client_Do env (client t)
                  (json_request t ''GET''
                     (serverURL t @ ''/app/rest/builds/id:'' @ fmt_d i @ ''/artifacts/content/'' @ path)
                     None) of
             Inl err \<Rightarrow> ([], [], Some err)
           | Inr resp \<Rightarrow>
               (case http_Response.Body resp of
                  (body, Some err) \<Rightarrow> (body, [], Some err)
                | (body, None) \<Rightarrow>
                    (body, Header_Get (http_Response.Header resp) ''Content-Type'', None))))"
  by (auto simp: GetArtifactTextFile_def NewRequest_def set_headers_fresh Let_def
      split: sum.splits option.splits prod.splits)

lemma GetArtifactTextFile_sent:
  "url_Parse env
     (serverURL t @ ''/app/rest/builds/id:'' @ fmt_d i @ ''/artifacts/content/'' @ path) = None \<Longrightarrow>
   sent (snd (GetArtifactTextFile env t path i)) =
     [json_request t ''GET''
        (serverURL t @ ''/app/rest/builds/id:'' @ fmt_d i @ ''/artifacts/content/'' @ path) None]"
  by (auto simp: GetArtifactTextFile_def NewRequest_def set_headers_fresh Let_def
      split: sum.splits option.splits prod.splits)

lemma GetArtifactTextFile_answer:
  "snd (snd (fst (GetArtifactTextFile (with_answer f h g env) t path i))) =
   snd (snd (fst (GetArtifactTextFile env t path i)))"
  by (auto simp: GetArtifactTextFile_def NewRequest_def with_answer_def Let_def
      split: sum.splits option.splits prod.splits)

text \<open>
  Claim C9. For every artifact path and build ID, when the URL (the base URL, then
  \<^verbatim>\<open>/app/rest/builds/id:\<close>, the ID in decimal, \<^verbatim>\<open>/artifacts/content/\<close> and the path) parses,
  \<open>GetArtifactTextFile\<close> sends one GET request to it. When the response arrives and its
  body is read, the result is the bytes read, unchanged, the first value of the
  response's \<^verbatim>\<open>Content-Type\<close> header, and no error. The returned error is \<open>err\<close> exactly
  when building the request, the network call or reading the body fails with \<open>err\<close>, and
  it does not depend on the status code, on the headers (the content type among them)
  or on the bytes of the response.
\<close>

theorem GetArtifactTextFile_result:
  fixes env :: "'d env" and t :: TCClient and i :: int and path :: string
  defines "U \<equiv> serverURL t @ ''/app/rest/builds/id:'' @ fmt_d i @ ''/artifacts/content/'' @ path"
    and "r \<equiv> fst (GetArtifactTextFile env t path i)"
  shows
  "(url_Parse env U = None \<longrightarrow>
      sent (snd (GetArtifactTextFile env t path i)) = [json_request t ''GET'' U None]) \<and>
   (url_Parse env U = None \<and>
    client_Do env (client t) (json_request t ''GET'' U None) = Inr resp \<and>
    http_Response.Body resp = (body, None) \<longrightarrow>
      r = (body, Header_Get (http_Response.Header resp) ''Content-Type'', None)) \<and>
   (\<forall>err. (snd (snd r) = Some err) =
      (url_Parse env U = Some err \<or>
       (url_Parse env U = None \<and>
          client_Do env (client t) (json_request t ''GET'' U None) = Inl err) \<or>
       (\<exists>resp' body'. url_Parse env U = None \<and>
          client_Do env (client t) (json_request t ''GET'' U None) = Inr resp' \<and>
          http_Response.Body resp' = (body', Some err)))) \<and>
   snd (snd (fst (GetArtifactTextFile (with_answer f h g env) t path i))) = snd (snd r)"
proof (intro conjI allI)
  show "url_Parse env U = None \<longrightarrow>
      sent (snd (GetArtifactTextFile env t path i)) = [json_request t ''GET'' U None]"
    unfolding U_def using GetArtifactTextFile_sent [of env t i path] by blast
next
  show "url_Parse env U = None \<and>
    client_Do env (client t) (json_request t ''GET'' U None) = Inr resp \<and>
    http_Response.Body resp = (body, None) \<longrightarrow>
      r = (body, Header_Get (http_Response.Header resp) ''Content-Type'', None)"
    unfolding U_def r_def GetArtifactTextFile_fst by simp
next
  fix err
  show "(snd (snd r) = Some err) =
      (url_Parse env U = Some err \<or>
       (url_Parse env U = None \<and>
          client_Do env (client t) (json_request t ''GET'' U None) = Inl err) \<or>
       (\<exists>resp' body'. url_Parse env U = None \<and>
          client_Do env (client t) (json_request t ''GET'' U None) = Inr resp' \<and>
          http_Response.Body resp' = (body', Some err)))"
    unfolding U_def r_def GetArtifactTextFile_fst
    by (auto split: sum.splits option.splits prod.splits)
next
  show "snd (snd (fst (GetArtifactTextFile (with_answer f h g env) t path i))) = snd (snd r)"
    unfolding r_def by (rule GetArtifactTextFile_answer)
qed

text \<open>An instance: a text artifact of build 7, served with status 404.\<close>

theorem GetArtifactTextFile_result_witness:
  "sent (snd (GetArtifactTextFile env_demo client_demo ''logs/out.txt'' 7)) =
     [json_request client_demo ''GET''
        ''https://ci/app/rest/builds/id:7/artifacts/content/logs/out.txt'' None] \<and>
   fst (GetArtifactTextFile env_demo client_demo ''logs/out.txt'' 7) =
     (''{id:42}'', ''text/plain'', None)"
  using GetArtifactTextFile_result
    [where env = env_demo and t = client_demo and i = 7 and path = "''logs/out.txt''"
       and body = "''{id:42}''"
       and resp = "\<lparr>StatusCode = 404, http_Response.Header = [(''Content-Type'', ''text/plain'')],
          http_Response.Body = (''{id:42}'', None)\<rparr>"]
  by (simp add: env_demo_def client_demo_def NewTeamcityClient_def fmt_d_7 Header_Get_def)

end
